theory Spec2Isabelle
  imports Complex_Main
begin

section \<open>CarbonLens: the activity-capture pipeline of the browser extension\<close>

text \<open>
  The development embeds the Background Coordinator (\<^verbatim>\<open>extension/background.js\<close>) and the
  content script (Event Extractor and Dispatch Client) of the CarbonLens extension.
  Mutable module state becomes a record that every operation takes and returns; the host
  runtime (clock, network, message channel, the \<^verbatim>\<open>URL\<close> constructor) is an explicit argument.
  Strings are byte strings; the whitespace and word classes are the ASCII ones.
\<close>

subsection \<open>JavaScript values and strings\<close>

datatype jsval = JUndefined | JNull | JBool bool | JNum int | JStr string | JObject

text \<open>Truthiness, as \<^verbatim>\<open>!value\<close> and \<^verbatim>\<open>a || b\<close> test it.\<close>

fun truthy :: "jsval \<Rightarrow> bool" where
  "truthy JUndefined = False"
| "truthy JNull = False"
| "truthy (JBool b) = b"
| "truthy (JNum n) = (n \<noteq> 0)"
| "truthy (JStr s) = (s \<noteq> [])"
| "truthy JObject = True"

datatype js_error = TypeError | Error string

definition is_space :: "char \<Rightarrow> bool" where
  "is_space c \<longleftrightarrow> c \<in> set [CHR '' '', CHR 0x09, CHR 0x0A, CHR 0x0B, CHR 0x0C, CHR 0x0D]"

text \<open>\<^verbatim>\<open>String.prototype.trim\<close>.\<close>

definition trim :: "string \<Rightarrow> string" where
  "trim s = rev (dropWhile is_space (rev (dropWhile is_space s)))"

text \<open>\<^verbatim>\<open>Array.prototype.join(',')\<close> on an array of strings.\<close>

fun join_comma :: "string list \<Rightarrow> string" where
  "join_comma [] = []"
| "join_comma [x] = x"
| "join_comma (x # y # ys) = x @ '','' @ join_comma (y # ys)"

text \<open>\<^verbatim>\<open>s.replace(/\/$/, '')\<close>: one trailing slash is removed.\<close>

definition strip_trailing_slash :: "string \<Rightarrow> string" where
  "strip_trailing_slash s = (if s \<noteq> [] \<and> last s = CHR ''/'' then butlast s else s)"

subsection \<open>The host runtime\<close>

text \<open>
  The \<^verbatim>\<open>URL\<close> constructor and the manifest belong to the browser, not to the repository.
  \<open>URL_href s\<close> is \<^verbatim>\<open>new URL(s)\<close> with the fragment cleared, serialised by
  \<^verbatim>\<open>toString()\<close>; it is \<open>None\<close> when the constructor throws.
  \<open>URL_resolves base\<close> says whether \<^verbatim>\<open>new URL(path, base)\<close> succeeds for the
  absolute paths of \<^verbatim>\<open>API_ENDPOINTS\<close>.
\<close>

record platform_api =
  URL_href :: "string \<Rightarrow> string option"
  URL_resolves :: "string \<Rightarrow> bool"
  manifest_version :: string

datatype probe_outcome = ProbeOk | ProbeNotOk | ProbeNetworkError

datatype post_outcome = PostNetworkError | PostUnparseable | PostRejected | PostAccepted

text \<open>
  What the world answers during one handler run: the clock (\<^verbatim>\<open>Date.now()\<close>, one reading
  per run), the ISO time stamp, the answer of the health endpoint and of the activity
  endpoint.
\<close>

record env =
  clock :: int
  isoTime :: string
  probe :: probe_outcome
  post :: post_outcome

subsection \<open>Activity events\<close>

datatype recipients = RecipientList "string list" | RecipientText string | NoRecipients

record activity =
  activityType :: "string option"
  provider :: "string option"
  subject :: "string option"
  sender :: "string option"
  recipientsOf :: recipients
  bodyPreview :: string
  attachmentCount :: nat
  attachmentBytes :: int

text \<open>
  An entry of \<^verbatim>\<open>pendingActivities\<close>: \<^verbatim>\<open>{ payload, platform, ts }\<close>, or \<^verbatim>\<open>null\<close>. The
  time stamp \<^verbatim>\<open>ts\<close> is written and never read; the entry keeps the other two fields.
\<close>

datatype queue_entry = NullEntry | Entry "activity option" "string option"

subsection \<open>Coordinator state and the Durable State Store\<close>

record state =
  mode :: string
  backendBaseUrl :: string
  isBackendReachable :: bool
  lastHealthCheck :: "int option"
  lastSyncStatus :: string
  lastSyncAt :: "string option"
  totalActivitiesTracked :: int
  lastSyncAttemptAt :: "string option"

definition DEFAULT_BACKEND_BASE_URL :: string where
  "DEFAULT_BACKEND_BASE_URL = ''http://127.0.0.1:5000''"

definition STATE_initial :: state where
  "STATE_initial = \<lparr> mode = ''awareness'', backendBaseUrl = DEFAULT_BACKEND_BASE_URL,
     isBackendReachable = True, lastHealthCheck = None, lastSyncStatus = ''idle'',
     lastSyncAt = None, totalActivitiesTracked = 0, lastSyncAttemptAt = None \<rparr>"

text \<open>
  \<^verbatim>\<open>chrome.storage.local\<close>. The keys \<open>mode\<close> and \<open>backendBaseUrl\<close> hold arbitrary
  values, since rehydration validates them; the other keys are read back unvalidated and
  have the types the Coordinator writes (\<open>None\<close>: absent or \<^verbatim>\<open>null\<close>). Writes succeed.
\<close>

record store =
  s_mode :: jsval
  s_backendBaseUrl :: jsval
  s_totalActivitiesTracked :: "int option"
  s_lastSyncStatus :: "string option"
  s_lastSyncAt :: "string option"
  s_lastSyncAttemptAt :: "string option"
  s_pendingActivities :: "queue_entry list"

definition store_empty :: store where
  "store_empty = \<lparr> s_mode = JUndefined, s_backendBaseUrl = JUndefined,
     s_totalActivitiesTracked = None, s_lastSyncStatus = None, s_lastSyncAt = None,
     s_lastSyncAttemptAt = None, s_pendingActivities = [] \<rparr>"

datatype state_key = K_mode | K_backendBaseUrl | K_totalActivitiesTracked
  | K_lastSyncStatus | K_lastSyncAt | K_lastSyncAttemptAt

text \<open>What leaves the Coordinator, in order.\<close>

datatype effect =
    StorageSet "state_key list"
  | StateUpdated
  | Notification string
  | UpdateMode string
  | SetIcon string

record coordinator =
  STATE :: state
  lastActivityFingerprint :: "string option"
  lastActivityAt :: int
  stateReady :: bool
  storage :: store
  effects :: "effect list"

definition coordinator_initial :: "store \<Rightarrow> coordinator" where
  "coordinator_initial s = \<lparr> STATE = STATE_initial, lastActivityFingerprint = None,
     lastActivityAt = 0, stateReady = False, storage = s, effects = [] \<rparr>"

definition emit :: "effect \<Rightarrow> coordinator \<Rightarrow> coordinator" where
  "emit x c = c\<lparr>effects := effects c @ [x]\<rparr>"

text \<open>\<^verbatim>\<open>STATE[key] !== undefined\<close>: only \<open>lastSyncAttemptAt\<close> can be undefined.\<close>

fun defined_in :: "state \<Rightarrow> state_key \<Rightarrow> bool" where
  "defined_in st K_lastSyncAttemptAt = (lastSyncAttemptAt st \<noteq> None)"
| "defined_in st k = True"

fun write_key :: "state \<Rightarrow> state_key \<Rightarrow> store \<Rightarrow> store" where
  "write_key st K_mode s = s\<lparr>s_mode := JStr (mode st)\<rparr>"
| "write_key st K_backendBaseUrl s = s\<lparr>s_backendBaseUrl := JStr (backendBaseUrl st)\<rparr>"
| "write_key st K_totalActivitiesTracked s =
     s\<lparr>s_totalActivitiesTracked := Some (totalActivitiesTracked st)\<rparr>"
| "write_key st K_lastSyncStatus s = s\<lparr>s_lastSyncStatus := Some (lastSyncStatus st)\<rparr>"
| "write_key st K_lastSyncAt s = s\<lparr>s_lastSyncAt := lastSyncAt st\<rparr>"
| "write_key st K_lastSyncAttemptAt s = s\<lparr>s_lastSyncAttemptAt := lastSyncAttemptAt st\<rparr>"

text \<open>
  \<^verbatim>\<open>persistState(fields)\<close>: the listed fields that are defined are written in one
  \<^verbatim>\<open>storage.local.set\<close>, whose callback broadcasts \<^verbatim>\<open>STATE_UPDATED\<close>.
\<close>

definition persistState :: "state_key list \<Rightarrow> coordinator \<Rightarrow> coordinator" where
  "persistState ks c =
     (let fs = (if ks = []
                then [K_mode, K_backendBaseUrl, K_totalActivitiesTracked, K_lastSyncStatus, K_lastSyncAt]
                else ks);
          payload = filter (defined_in (STATE c)) fs
      in if payload = [] then c
         else emit StateUpdated (emit (StorageSet payload)
                (c\<lparr>storage := fold (write_key (STATE c)) payload (storage c)\<rparr>)))"

definition getSerializableState :: "platform_api \<Rightarrow> coordinator \<Rightarrow> state \<times> string" where
  "getSerializableState P c = (STATE c, manifest_version P)"

subsection \<open>Health probe and delivery\<close>

text \<open>\<^verbatim>\<open>STATE.lastHealthCheck && now - STATE.lastHealthCheck < limit\<close> and its twin with the opposite comparison.\<close>

definition checked_within :: "int option \<Rightarrow> int \<Rightarrow> int \<Rightarrow> bool" where
  "checked_within lhc t limit =
     (case lhc of None \<Rightarrow> False | Some l \<Rightarrow> l \<noteq> 0 \<and> t - l < limit)"

definition checked_before :: "int option \<Rightarrow> int \<Rightarrow> int \<Rightarrow> bool" where
  "checked_before lhc t limit =
     (case lhc of None \<Rightarrow> False | Some l \<Rightarrow> l \<noteq> 0 \<and> t - l > limit)"

text \<open>
  \<^verbatim>\<open>performHealthCheck(force)\<close>. The URL of the health endpoint is built outside the
  \<^verbatim>\<open>try\<close>, so a base that cannot be resolved against throws before the state changes.
\<close>

definition performHealthCheck ::
    "platform_api \<Rightarrow> env \<Rightarrow> bool \<Rightarrow> state \<Rightarrow> js_error + (bool \<times> state)" where
  "performHealthCheck P e force st =
     (if \<not> force \<and> checked_within (lastHealthCheck st) (clock e) (60 * 1000)
      then Inr (isBackendReachable st, st)
      else if \<not> URL_resolves P (backendBaseUrl st) then Inl TypeError
      else let r = (probe e = ProbeOk)
           in Inr (r, st\<lparr>isBackendReachable := r, lastHealthCheck := Some (clock e)\<rparr>))"

text \<open>
  \<^verbatim>\<open>sendActivityToBackend\<close>: the error thrown, if any, and the state as the health check
  left it.
\<close>

definition post_error :: "post_outcome \<Rightarrow> js_error option" where
  "post_error r = (case r of
       PostNetworkError \<Rightarrow> Some TypeError
     | PostUnparseable \<Rightarrow> Some (Error ''Backend response could not be parsed'')
     | PostRejected \<Rightarrow> Some (Error ''Backend error'')
     | PostAccepted \<Rightarrow> None)"

definition sendActivityToBackend ::
    "platform_api \<Rightarrow> env \<Rightarrow> state \<Rightarrow> js_error option \<times> state" where
  "sendActivityToBackend P e st =
     (if backendBaseUrl st = [] then (Some (Error ''Backend base URL is not configured.''), st)
      else if \<not> isBackendReachable st
              \<or> checked_before (lastHealthCheck st) (clock e) (5 * 60 * 1000)
      then (case performHealthCheck P e True st of
              Inl err \<Rightarrow> (Some err, st)
            | Inr (reachable, st1) \<Rightarrow>
                if \<not> reachable then (Some (Error ''Backend API is not reachable.''), st1)
                else if \<not> URL_resolves P (backendBaseUrl st1) then (Some TypeError, st1)
                else (post_error (post e), st1))
      else if \<not> URL_resolves P (backendBaseUrl st) then (Some TypeError, st)
      else (post_error (post e), st))"

subsection \<open>onActivity\<close>

text \<open>\<^verbatim>\<open>${provider}::${subject || ''}::${sender || ''}::${recipientsKey}\<close>.\<close>

definition or_empty :: "string option \<Rightarrow> string" where
  "or_empty x = (case x of None \<Rightarrow> [] | Some s \<Rightarrow> s)"

definition recipientsKey :: "recipients \<Rightarrow> string" where
  "recipientsKey r = (case r of
       RecipientList xs \<Rightarrow> join_comma xs
     | RecipientText s \<Rightarrow> s
     | NoRecipients \<Rightarrow> [])"

definition fingerprint :: "activity \<Rightarrow> string" where
  "fingerprint p =
     (case provider p of None \<Rightarrow> ''undefined'' | Some s \<Rightarrow> s) @ ''::'' @ or_empty (subject p)
       @ ''::'' @ or_empty (sender p) @ ''::'' @ recipientsKey (recipientsOf p)"

text \<open>The duplicate test of \<^verbatim>\<open>handleActivityEvent\<close>, a window of 2000 ms.\<close>

definition is_duplicate :: "coordinator \<Rightarrow> int \<Rightarrow> string \<Rightarrow> bool" where
  "is_duplicate c t fp =
     (case lastActivityFingerprint c of
        None \<Rightarrow> False
      | Some l \<Rightarrow> l \<noteq> [] \<and> fp = l \<and> t - lastActivityAt c < 2000)"

definition set_state :: "(state \<Rightarrow> state) \<Rightarrow> coordinator \<Rightarrow> coordinator" where
  "set_state f c = c\<lparr>STATE := f (STATE c)\<rparr>"

text \<open>
  The two outcomes of the delivery attempt. On failure the error is logged, the status
  is set to \<open>error\<close> and a notification is raised; nothing is thrown further.
\<close>

definition sync_succeeded :: "env \<Rightarrow> coordinator \<Rightarrow> coordinator" where
  "sync_succeeded e c =
     emit StateUpdated (persistState [K_lastSyncStatus, K_lastSyncAt]
       (set_state (\<lambda>st. st\<lparr>lastSyncStatus := ''success'', lastSyncAt := Some (isoTime e)\<rparr>) c))"

definition sync_failed :: "env \<Rightarrow> coordinator \<Rightarrow> coordinator" where
  "sync_failed e c =
     emit (Notification ''CarbonLens Sync Error'')
       (emit StateUpdated (persistState [K_lastSyncStatus, K_lastSyncAt]
         (set_state (\<lambda>st. st\<lparr>lastSyncStatus := ''error'', lastSyncAt := Some (isoTime e)\<rparr>) c)))"

text \<open>
  The steps of \<^verbatim>\<open>handleActivityEvent\<close> after the duplicate test, in source order:
  the counter is raised and persisted; the status becomes \<open>syncing\<close>, is persisted and
  broadcast; in awareness mode a notification is raised (its text reads
  \<^verbatim>\<open>platform.toUpperCase()\<close> inside a \<^verbatim>\<open>try\<close>, so there is none for an undefined
  platform); the event is delivered inside a \<^verbatim>\<open>try\<close>.
\<close>

definition count_detected :: "coordinator \<Rightarrow> coordinator" where
  "count_detected c =
     persistState [K_totalActivitiesTracked]
       (set_state (\<lambda>st. st\<lparr>totalActivitiesTracked := totalActivitiesTracked st + 1\<rparr>) c)"

definition mark_syncing :: "env \<Rightarrow> coordinator \<Rightarrow> coordinator" where
  "mark_syncing e c =
     emit StateUpdated
       (persistState [K_lastSyncStatus, K_lastSyncAt, K_lastSyncAttemptAt]
         (set_state (\<lambda>st. st\<lparr>lastSyncStatus := ''syncing'',
                               lastSyncAttemptAt := Some (isoTime e)\<rparr>) c))"

definition notify_detected :: "string option \<Rightarrow> coordinator \<Rightarrow> coordinator" where
  "notify_detected pf c =
     (if mode (STATE c) = ''awareness'' \<and> pf \<noteq> None
      then emit (Notification ''CarbonLens Activity Detected'') c else c)"

definition deliver :: "platform_api \<Rightarrow> env \<Rightarrow> coordinator \<Rightarrow> coordinator" where
  "deliver P e c =
     (case sendActivityToBackend P e (STATE c) of
        (None, st) \<Rightarrow> sync_succeeded e (c\<lparr>STATE := st\<rparr>)
      | (Some err, st) \<Rightarrow> sync_failed e (c\<lparr>STATE := st\<rparr>))"

text \<open>
  \<^verbatim>\<open>handleActivityEvent(payload, platform, mode)\<close>. A payload that is missing or falsy
  is \<open>None\<close>. The \<open>mode\<close> argument only travels to the backend inside the request.
\<close>

definition handleActivityEvent ::
    "platform_api \<Rightarrow> env \<Rightarrow> activity option \<Rightarrow> string option \<Rightarrow> string \<Rightarrow> coordinator
       \<Rightarrow> coordinator" where
  "handleActivityEvent P e payload pf md c =
     (case payload of
        None \<Rightarrow> c
      | Some p \<Rightarrow>
          if is_duplicate c (clock e) (fingerprint p) then c
          else deliver P e (notify_detected pf (mark_syncing e (count_detected
                 (c\<lparr>lastActivityFingerprint := Some (fingerprint p),
                     lastActivityAt := clock e\<rparr>)))))"

subsection \<open>Draining the offline queue\<close>

definition getPendingActivities :: "coordinator \<Rightarrow> queue_entry list" where
  "getPendingActivities c = s_pendingActivities (storage c)"

definition setPendingActivities :: "queue_entry list \<Rightarrow> coordinator \<Rightarrow> coordinator" where
  "setPendingActivities list c = c\<lparr>storage := (storage c)\<lparr>s_pendingActivities := list\<rparr>\<rparr>"

text \<open>
  The \<^verbatim>\<open>while\<close> loop of \<^verbatim>\<open>processPendingActivities\<close> over the local copy of the
  queue. Reading \<^verbatim>\<open>item.payload\<close> of a \<^verbatim>\<open>null\<close> entry throws inside the
  \<^verbatim>\<open>try\<close>, which leaves the loop; otherwise the entry is handled, shifted off and the
  rest is written back. \<open>E k\<close> is what the world answers to the \<open>k\<close>-th handler run.
\<close>

fun drain_loop ::
    "platform_api \<Rightarrow> (nat \<Rightarrow> env) \<Rightarrow> nat \<Rightarrow> queue_entry list \<Rightarrow> coordinator \<Rightarrow> coordinator" where
  "drain_loop P E k [] c = c"
| "drain_loop P E k (NullEntry # rest) c = c"
| "drain_loop P E k (Entry payload pf # rest) c =
     drain_loop P E (Suc k) rest
       (setPendingActivities rest (handleActivityEvent P (E k) payload pf (mode (STATE c)) c))"

definition processPendingActivities ::
    "platform_api \<Rightarrow> (nat \<Rightarrow> env) \<Rightarrow> nat \<Rightarrow> coordinator \<Rightarrow> coordinator" where
  "processPendingActivities P E k c = drain_loop P E k (getPendingActivities c) c"

text \<open>
  For comparison with the loop: a list of entries handled one after the other, first to
  last, with no queue write in between.
\<close>

fun handle_in_order ::
    "platform_api \<Rightarrow> (nat \<Rightarrow> env) \<Rightarrow> nat \<Rightarrow> queue_entry list \<Rightarrow> coordinator \<Rightarrow> coordinator" where
  "handle_in_order P E k [] c = c"
| "handle_in_order P E k (NullEntry # rest) c = c"
| "handle_in_order P E k (Entry payload pf # rest) c =
     handle_in_order P E (Suc k) rest (handleActivityEvent P (E k) payload pf (mode (STATE c)) c)"

text \<open>Handling an entry throws exactly when the entry is \<^verbatim>\<open>null\<close>.\<close>

definition throws_on :: "queue_entry \<Rightarrow> bool" where
  "throws_on x \<longleftrightarrow> x = NullEntry"

subsection \<open>Validated mutators\<close>

definition updateExtensionIcon :: "coordinator \<Rightarrow> coordinator" where
  "updateExtensionIcon c = emit (SetIcon (mode (STATE c))) c"

definition broadcastMode :: "coordinator \<Rightarrow> coordinator" where
  "broadcastMode c = emit (UpdateMode (mode (STATE c))) c"

definition setMode :: "jsval \<Rightarrow> bool \<Rightarrow> coordinator \<Rightarrow> coordinator" where
  "setMode nextMode showNotification c =
     (let validatedMode = (if nextMode = JStr ''silent'' then ''silent'' else ''awareness'')
      in if mode (STATE c) = validatedMode then c
         else
           let c1 = broadcastMode (updateExtensionIcon (persistState [K_mode]
                      (set_state (\<lambda>st. st\<lparr>mode := validatedMode\<rparr>) c)));
               c2 = (if validatedMode = ''awareness'' \<and> showNotification
                     then emit (Notification ''CarbonLens Awareness Mode'') c1 else c1)
           in if validatedMode = ''silent'' \<and> showNotification
              then emit (Notification ''CarbonLens Silent Mode'') c2 else c2)"

text \<open>
  \<^verbatim>\<open>sanitizeBaseUrl(value)\<close>: \<open>Inr None\<close> is the \<^verbatim>\<open>null\<close> result. A truthy value
  that is not a string has no \<^verbatim>\<open>trim\<close> method, and the call throws a TypeError.
\<close>

definition sanitizeBaseUrl :: "platform_api \<Rightarrow> jsval \<Rightarrow> js_error + string option" where
  "sanitizeBaseUrl P v =
     (if \<not> truthy v then Inr None
      else case v of
        JStr s \<Rightarrow>
          let trimmed = trim s
          in if trimmed = [] then Inr None
             else (case URL_href P trimmed of
                     Some href \<Rightarrow> Inr (Some (strip_trailing_slash href))
                   | None \<Rightarrow>
                      (case URL_href P (''https://'' @ trimmed) of
                         Some href \<Rightarrow> Inr (Some (strip_trailing_slash href))
                       | None \<Rightarrow> Inr None))
      | _ \<Rightarrow> Inl TypeError)"

definition invalid_backend_url :: js_error where
  "invalid_backend_url =
     Error ''Please provide a valid backend URL (e.g., https://api.yourdomain.com).''"

text \<open>
  \<^verbatim>\<open>setBackendBaseUrl(rawUrl)\<close>: the error thrown, if any, and the Coordinator afterwards.
  \<^verbatim>\<open>!sanitized\<close> also rejects the empty string.
\<close>

definition setBackendBaseUrl ::
    "platform_api \<Rightarrow> jsval \<Rightarrow> coordinator \<Rightarrow> js_error option \<times> coordinator" where
  "setBackendBaseUrl P rawUrl c =
     (case sanitizeBaseUrl P rawUrl of
        Inl err \<Rightarrow> (Some err, c)
      | Inr None \<Rightarrow> (Some invalid_backend_url, c)
      | Inr (Some sanitized) \<Rightarrow>
          if sanitized = [] then (Some invalid_backend_url, c)
          else (None, persistState [K_backendBaseUrl]
                        (set_state (\<lambda>st. st\<lparr>backendBaseUrl := sanitized\<rparr>) c)))"

definition clearStats :: "coordinator \<Rightarrow> coordinator" where
  "clearStats c =
     persistState [K_totalActivitiesTracked, K_lastSyncStatus, K_lastSyncAt]
       (set_state (\<lambda>st. st\<lparr>totalActivitiesTracked := 0, lastSyncStatus := ''synced'',
                             lastSyncAt := None\<rparr>) c)"

subsection \<open>Cold start\<close>

text \<open>
  The storage callback of \<^verbatim>\<open>initializeState\<close>. The callback is an \<^verbatim>\<open>async\<close> function with
  no \<^verbatim>\<open>try\<close> of its own: when \<^verbatim>\<open>sanitizeBaseUrl\<close> or the health check throws, the
  assignments made so far stay and the rest (readiness, queue drain) never runs.
  \<open>E 0\<close> answers the health check, \<open>E 1\<close>, \<open>E 2\<close>, ... the queued events.
\<close>

definition initializeState ::
    "platform_api \<Rightarrow> (nat \<Rightarrow> env) \<Rightarrow> coordinator \<Rightarrow> coordinator" where
  "initializeState P E c =
     (let data = storage c;
          c1 = set_state (\<lambda>st. st\<lparr>mode :=
                  (if s_mode data = JStr ''silent'' then ''silent'' else ''awareness'')\<rparr>) c
      in (case sanitizeBaseUrl P (s_backendBaseUrl data) of
           Inl err \<Rightarrow> c1
         | Inr r \<Rightarrow>
             let url = (case r of None \<Rightarrow> DEFAULT_BACKEND_BASE_URL
                        | Some u \<Rightarrow> if u = [] then DEFAULT_BACKEND_BASE_URL else u);
                 c2 = set_state (\<lambda>st. st\<lparr>
                        backendBaseUrl := url,
                        totalActivitiesTracked :=
                          (case s_totalActivitiesTracked data of None \<Rightarrow> 0 | Some n \<Rightarrow> n),
                        lastSyncStatus :=
                          (case s_lastSyncStatus data of None \<Rightarrow> ''idle''
                           | Some x \<Rightarrow> if x = [] then ''idle'' else x),
                        lastSyncAt :=
                          (case s_lastSyncAt data of None \<Rightarrow> None
                           | Some t \<Rightarrow> if t = [] then None else Some t)\<rparr>) c1
             in (case performHealthCheck P (E 0) False (STATE c2) of
                  Inl err \<Rightarrow> c2
                | Inr (reachable, st3) \<Rightarrow>
                    processPendingActivities P E 1
                      ((broadcastMode (updateExtensionIcon (c2\<lparr>STATE := st3\<rparr>)))
                         \<lparr>stateReady := True\<rparr>))))"

subsection \<open>Messages from the popup\<close>

datatype popup_message =
    GET_STATE
  | SET_MODE jsval
  | SET_BACKEND_URL jsval
  | REFRESH_HEALTH
  | CLEAR_STATS
  | UNKNOWN_TYPE

record reply =
  success :: bool
  error_text :: "js_error option"
  reply_state :: "state \<times> string"
  healthCheck :: "bool option"

definition ok_reply :: "platform_api \<Rightarrow> coordinator \<Rightarrow> reply" where
  "ok_reply P c = \<lparr> success = True, error_text = None,
     reply_state = getSerializableState P c, healthCheck = None \<rparr>"

definition error_reply :: "platform_api \<Rightarrow> js_error \<Rightarrow> coordinator \<Rightarrow> reply" where
  "error_reply P err c = \<lparr> success = False, error_text = Some err,
     reply_state = getSerializableState P c, healthCheck = None \<rparr>"

text \<open>
  \<^verbatim>\<open>handlePopupMessage\<close> first awaits \<^verbatim>\<open>stateReady\<close>, a promise that only the storage
  callback of \<^verbatim>\<open>initializeState\<close> resolves: until then no reply is produced (\<open>None\<close>).
  \<open>Inl\<close> is a rejection, which the message listener turns into an error reply.
  \<^verbatim>\<open>ensureContentScripts\<close> pings the mail tabs and touches nothing of the Coordinator.
\<close>

definition handlePopupMessage ::
    "platform_api \<Rightarrow> env \<Rightarrow> popup_message \<Rightarrow> coordinator
       \<Rightarrow> ((js_error + reply) \<times> coordinator) option" where
  "handlePopupMessage P e m c =
     (if \<not> stateReady c then None
      else Some (case m of
          GET_STATE \<Rightarrow> (Inr (ok_reply P c), c)
        | SET_MODE requestedMode \<Rightarrow>
            (let c1 = setMode requestedMode False c in (Inr (ok_reply P c1), c1))
        | SET_BACKEND_URL backendUrl \<Rightarrow>
            (case setBackendBaseUrl P backendUrl c of
               (Some err, c1) \<Rightarrow> (Inl err, c1)
             | (None, c1) \<Rightarrow>
                 (case performHealthCheck P e False (STATE c1) of
                    Inl err \<Rightarrow> (Inl err, c1)
                  | Inr (reachable, st2) \<Rightarrow>
                      (let c2 = c1\<lparr>STATE := st2\<rparr> in (Inr (ok_reply P c2), c2))))
        | REFRESH_HEALTH \<Rightarrow>
            (case performHealthCheck P e True (STATE c) of
               Inl err \<Rightarrow> (Inr (error_reply P err c), c)
             | Inr (reachable, st1) \<Rightarrow>
                 (let c1 = c\<lparr>STATE := st1\<rparr>
                  in (Inr ((ok_reply P c1)\<lparr>healthCheck := Some reachable\<rparr>), c1)))
        | CLEAR_STATS \<Rightarrow> (let c1 = clearStats c in (Inr (ok_reply P c1), c1))
        | UNKNOWN_TYPE \<Rightarrow>
            (Inr (error_reply P (Error ''Unknown message type'') c), c)))"

text \<open>The \<^verbatim>\<open>carbonlens-popup\<close> branch of the message listener.\<close>

definition onPopupMessage ::
    "platform_api \<Rightarrow> env \<Rightarrow> popup_message \<Rightarrow> coordinator \<Rightarrow> (reply \<times> coordinator) option" where
  "onPopupMessage P e m c =
     (case handlePopupMessage P e m c of
        None \<Rightarrow> None
      | Some (Inr r, c1) \<Rightarrow> Some (r, c1)
      | Some (Inl err, c1) \<Rightarrow> Some (error_reply P err c1, c1))"

text \<open>
  The \<^verbatim>\<open>carbonlens-content\<close> branch of the listener: an \<^verbatim>\<open>ACTIVITY_DETECTED\<close> message
  runs \<^verbatim>\<open>handleActivityEvent\<close> on its payload, platform and mode.
\<close>

record activity_message =
  msg_platform :: "string option"
  msg_mode :: string
  msg_payload :: "activity option"

definition onActivityMessage ::
    "platform_api \<Rightarrow> env \<Rightarrow> activity_message \<Rightarrow> coordinator \<Rightarrow> coordinator" where
  "onActivityMessage P e m c =
     handleActivityEvent P e (msg_payload m) (msg_platform m) (msg_mode m) c"

section \<open>The content script\<close>

subsection \<open>Attachment size estimate\<close>

definition is_digit :: "char \<Rightarrow> bool" where
  "is_digit c \<longleftrightarrow> c \<in> set ''0123456789''"

definition is_word_char :: "char \<Rightarrow> bool" where
  "is_word_char c \<longleftrightarrow>
     c \<in> set ''abcdefghijklmnopqrstuvwxyzABCDEFGHIJKLMNOPQRSTUVWXYZ0123456789_''"

datatype size_unit = Unit_B | Unit_KB | Unit_MB

text \<open>The alternation \<^verbatim>\<open>(KB|MB|B)\<close> under the \<^verbatim>\<open>i\<close> flag, at the head of the text.\<close>

definition unit_at :: "string \<Rightarrow> (size_unit \<times> string) option" where
  "unit_at s =
     (case s of
        [] \<Rightarrow> None
      | a # r \<Rightarrow>
          if a \<in> set ''Kk'' \<and> r \<noteq> [] \<and> hd r \<in> set ''Bb'' then Some (Unit_KB, tl r)
          else if a \<in> set ''Mm'' \<and> r \<noteq> [] \<and> hd r \<in> set ''Bb'' then Some (Unit_MB, tl r)
          else if a \<in> set ''Bb'' then Some (Unit_B, r)
          else None)"

text \<open>
  \<^verbatim>\<open>/\b(KB|MB|B)\b/i.test(txt)\<close>: a unit that starts after a non-word character (or at
  the start) and ends before one (or at the end). The flag says whether the previous
  character is a word character.
\<close>

fun unit_word_from :: "bool \<Rightarrow> string \<Rightarrow> bool" where
  "unit_word_from prev_word [] = False"
| "unit_word_from prev_word (c # cs) =
     ((\<not> prev_word \<and>
        (case unit_at (c # cs) of
           None \<Rightarrow> False
         | Some (u, r) \<Rightarrow> r = [] \<or> \<not> is_word_char (hd r)))
      \<or> unit_word_from (is_word_char c) cs)"

definition has_unit_word :: "string \<Rightarrow> bool" where
  "has_unit_word txt = unit_word_from False txt"

definition digit_value :: "char \<Rightarrow> nat" where
  "digit_value c = of_char c - 48"

definition digits_value :: "string \<Rightarrow> nat" where
  "digits_value ds = foldl (\<lambda>n c. 10 * n + digit_value c) 0 ds"

text \<open>\<^verbatim>\<open>parseFloat\<close> of the digits and the optional fraction, as an exact rational.\<close>

definition decimal_value :: "string \<Rightarrow> string \<Rightarrow> rat" where
  "decimal_value ds fs = of_nat (digits_value ds) + of_nat (digits_value fs) / 10 ^ length fs"

text \<open>
  \<^verbatim>\<open>/([0-9]+(?:\.[0-9]+)?)\s*(KB|MB|B)/i\<close> anchored at the head of the text. The greedy
  match is the only candidate: giving back a digit leaves a digit, and giving up the
  fraction leaves the dot, where neither white space nor a unit can start.
\<close>

definition match_size_here :: "string \<Rightarrow> (rat \<times> size_unit) option" where
  "match_size_here s =
     (let ds = takeWhile is_digit s; r1 = dropWhile is_digit s
      in if ds = [] then None
         else if r1 \<noteq> [] \<and> hd r1 = CHR ''.'' then
           (let fs = takeWhile is_digit (tl r1); r3 = dropWhile is_digit (tl r1)
            in if fs = [] then None
               else (case unit_at (dropWhile is_space r3) of
                       None \<Rightarrow> None
                     | Some (u, r) \<Rightarrow> Some (decimal_value ds fs, u)))
         else (case unit_at (dropWhile is_space r1) of
                 None \<Rightarrow> None
               | Some (u, r) \<Rightarrow> Some (decimal_value ds [], u)))"

text \<open>The leftmost match, as \<^verbatim>\<open>String.prototype.match\<close> finds it.\<close>

fun find_size :: "string \<Rightarrow> (rat \<times> size_unit) option" where
  "find_size [] = None"
| "find_size (c # cs) =
     (case match_size_here (c # cs) of
        Some m \<Rightarrow> Some m
      | None \<Rightarrow> find_size cs)"

definition parseSizeToMb :: "string \<Rightarrow> rat" where
  "parseSizeToMb text =
     (if text = [] then 0
      else case find_size text of
        None \<Rightarrow> 0
      | Some (v, u) \<Rightarrow>
          (case u of
             Unit_B \<Rightarrow> v / (1024 * 1024)
           | Unit_KB \<Rightarrow> v / 1024
           | Unit_MB \<Rightarrow> v))"

text \<open>
  The region of the page a compose window occupies, as the extractor reads it:
  \<open>candidate_texts\<close> holds, for each element matched by
  \<^verbatim>\<open>'div[aria-label], span, div, li'\<close> in document order, its aria-label or else its text;
  \<open>tooltip_texts\<close> is the same for the selector \<^verbatim>\<open>'div[aria-label], span, div'\<close> of the
  hover tooltip; \<open>attachment_items\<close> is the number of list items inside the attachments
  container, \<open>None\<close> when there is no such container.
\<close>

record compose_root =
  to_text :: string
  subject_value :: string
  body_text :: string
  attachment_items :: "nat option"
  candidate_texts :: "string list"
  tooltip_texts :: "string list"

definition add_size_hint :: "rat \<Rightarrow> string \<Rightarrow> rat" where
  "add_size_hint totalMb txt =
     (if txt = [] then totalMb
      else if has_unit_word txt
      then (let mb = parseSizeToMb txt in if mb > 0 then totalMb + mb else totalMb)
      else totalMb)"

definition computeAttachmentTotalMb :: "compose_root option \<Rightarrow> rat" where
  "computeAttachmentTotalMb composeRoot =
     (case composeRoot of
        None \<Rightarrow> 0
      | Some region \<Rightarrow> foldl add_size_hint 0 (candidate_texts region))"

text \<open>\<^verbatim>\<open>Math.round\<close>: the nearest integer, halves upwards.\<close>

definition math_round :: "rat \<Rightarrow> int" where
  "math_round x = \<lfloor>x + 1 / 2\<rfloor>"

subsection \<open>Extraction\<close>

fun split_on :: "(char \<Rightarrow> bool) \<Rightarrow> string \<Rightarrow> string list" where
  "split_on sep [] = [[]]"
| "split_on sep (c # cs) =
     (if sep c then [] # split_on sep cs
      else (case split_on sep cs of
              [] \<Rightarrow> [[c]]
            | x # xs \<Rightarrow> (c # x) # xs))"

text \<open>
  \<^verbatim>\<open>rawValue.split(/[,;\n]+/).map(trim).filter(Boolean)\<close>. Splitting at every single
  separator differs from splitting at runs only in empty pieces, which the filter drops.
\<close>

definition normalizeRecipientList :: "string \<Rightarrow> string list" where
  "normalizeRecipientList rawValue =
     (if rawValue = [] then []
      else filter (\<lambda>entry. entry \<noteq> [])
             (map trim (split_on (\<lambda>c. c \<in> set [CHR '','', CHR '';'', CHR 0x0A]) rawValue)))"

datatype mail_platform = GMAIL | OUTLOOK

fun platform_name :: "mail_platform \<Rightarrow> string" where
  "platform_name GMAIL = ''gmail''"
| "platform_name OUTLOOK = ''outlook''"

text \<open>
  \<^verbatim>\<open>extractGmailEmailData\<close> and \<^verbatim>\<open>extractOutlookEmailData\<close> differ in their selectors
  and in the provider; on the abstract region they are one function. \<open>accountEmail\<close>
  is what \<^verbatim>\<open>getGmailAccountEmail\<close> or \<^verbatim>\<open>getOutlookAccountEmail\<close> found.
\<close>

definition extractEmailData ::
    "mail_platform \<Rightarrow> string option \<Rightarrow> compose_root option \<Rightarrow> activity" where
  "extractEmailData pl accountEmail composeRoot =
     (let recips = (case composeRoot of None \<Rightarrow> [] | Some r \<Rightarrow> to_text r);
          subj = (case composeRoot of None \<Rightarrow> [] | Some r \<Rightarrow> subject_value r);
          body = (case composeRoot of None \<Rightarrow> [] | Some r \<Rightarrow> take 280 (body_text r));
          count = (case composeRoot of
                     None \<Rightarrow> 0
                   | Some r \<Rightarrow> (case attachment_items r of None \<Rightarrow> 0 | Some n \<Rightarrow> n));
          totalMb = computeAttachmentTotalMb composeRoot
      in \<lparr> activityType = Some ''email'', provider = Some (platform_name pl),
           subject = Some subj, sender = accountEmail,
           recipientsOf = RecipientList (normalizeRecipientList recips),
           bodyPreview = body, attachmentCount = count,
           attachmentBytes = math_round (totalMb * 1000000) \<rparr>)"

definition extractGmailEmailData :: "string option \<Rightarrow> compose_root option \<Rightarrow> activity" where
  "extractGmailEmailData = extractEmailData GMAIL"

definition extractOutlookEmailData :: "string option \<Rightarrow> compose_root option \<Rightarrow> activity" where
  "extractOutlookEmailData = extractEmailData OUTLOOK"

text \<open>
  The hover tooltip of the Gmail send button (\<^verbatim>\<open>estimateEmailEmission\<close> with its own
  \<^verbatim>\<open>guessAttachmentTotalMb\<close>) sums size hints the same way and, when it finds none,
  assumes one megabyte per attachment.
\<close>

definition tooltip_total_mb :: "string option \<Rightarrow> compose_root \<Rightarrow> rat" where
  "tooltip_total_mb accountEmail region =
     (let count = attachmentCount (extractGmailEmailData accountEmail (Some region));
          totalMb = foldl add_size_hint 0 (tooltip_texts region)
      in if totalMb \<le> 0 \<and> count > 0 then of_nat count * 1 else totalMb)"

subsection \<open>Dispatch Client\<close>

datatype channel_response = NoResponse | Acknowledged | BackgroundError string | UnexpectedResponse

text \<open>
  What one call of \<^verbatim>\<open>chrome.runtime.sendMessage\<close> does: it throws, or its callback
  runs with \<^verbatim>\<open>chrome.runtime.lastError\<close> set, or the callback runs with a response.
\<close>

datatype send_outcome = SendThrows | LastError | Callback channel_response

text \<open>
  The content script's variables and what it hands to the runtime: every
  \<^verbatim>\<open>sendMessage\<close> call with its attempt number, every delay given to \<^verbatim>\<open>setTimeout\<close>,
  and the \<^verbatim>\<open>pendingActivities\<close> key of the shared storage.
\<close>

record dispatcher =
  currentPlatform :: mail_platform
  content_mode :: string
  lastDispatchAt :: int
  sent :: "(nat \<times> activity_message) list"
  timers :: "int list"
  pendingActivities :: "queue_entry list"

definition dispatcher_initial :: "mail_platform \<Rightarrow> dispatcher" where
  "dispatcher_initial pl = \<lparr> currentPlatform = pl, content_mode = ''awareness'',
     lastDispatchAt = 0, sent = [], timers = [], pendingActivities = [] \<rparr>"

definition maxRetries :: nat where
  "maxRetries = 3"

definition retryDelayBase :: int where
  "retryDelayBase = 300"

definition retry_delay :: "nat \<Rightarrow> int" where
  "retry_delay attempt = retryDelayBase * 2 ^ (attempt - 1)"

definition queue_locally :: "activity_message \<Rightarrow> dispatcher \<Rightarrow> dispatcher" where
  "queue_locally m d =
     d\<lparr>pendingActivities := pendingActivities d
          @ [Entry (msg_payload m) (Some (platform_name (currentPlatform d)))]\<rparr>"

text \<open>
  \<^verbatim>\<open>sendWithRetry(attempt)\<close>; \<open>out k\<close> is the outcome of attempt \<open>k\<close>. The
  \<^verbatim>\<open>catch\<close> branch retries while \<^verbatim>\<open>attempt < maxRetries\<close> and has no \<^verbatim>\<open>else\<close>.
\<close>

function sendWithRetry ::
    "(nat \<Rightarrow> send_outcome) \<Rightarrow> activity_message \<Rightarrow> nat \<Rightarrow> dispatcher \<Rightarrow> dispatcher" where
  "sendWithRetry out m attempt d =
     (let d1 = d\<lparr>sent := sent d @ [(attempt, m)]\<rparr>
      in case out attempt of
           LastError \<Rightarrow>
             if attempt < maxRetries
             then sendWithRetry out m (attempt + 1)
                    (d1\<lparr>timers := timers d1 @ [retry_delay attempt]\<rparr>)
             else queue_locally m d1
         | Callback response \<Rightarrow> d1
         | SendThrows \<Rightarrow>
             if attempt < maxRetries
             then sendWithRetry out m (attempt + 1)
                    (d1\<lparr>timers := timers d1 @ [retry_delay attempt]\<rparr>)
             else d1)"
  by pat_completeness auto
termination
  by (relation "measure (\<lambda>(out, m, attempt, d). maxRetries - attempt)") auto

definition dispatchActivity ::
    "(nat \<Rightarrow> send_outcome) \<Rightarrow> activity option \<Rightarrow> dispatcher \<Rightarrow> dispatcher" where
  "dispatchActivity out payload d =
     (case payload of
        None \<Rightarrow> d
      | Some p \<Rightarrow>
          sendWithRetry out
            \<lparr> msg_platform = Some (platform_name (currentPlatform d)),
              msg_mode = content_mode d, msg_payload = Some p \<rparr> 1 d)"

record key_event =
  is_enter :: bool
  ctrlKey :: bool
  metaKey :: bool

text \<open>
  \<^verbatim>\<open>handleGlobalKeydown\<close> at clock reading \<open>t\<close>; \<open>composeRoot\<close> is the region found
  from the focused element, if any. Only this handler reads and writes
  \<^verbatim>\<open>_lastDispatchAt\<close>.
\<close>

definition handleGlobalKeydown ::
    "(nat \<Rightarrow> send_outcome) \<Rightarrow> int \<Rightarrow> string option \<Rightarrow> key_event \<Rightarrow> compose_root option
       \<Rightarrow> dispatcher \<Rightarrow> dispatcher" where
  "handleGlobalKeydown out t accountEmail ev composeRoot d =
     (if \<not> (is_enter ev \<and> (ctrlKey ev \<or> metaKey ev)) then d
      else if t - lastDispatchAt d < 1000 then d
      else case composeRoot of
        None \<Rightarrow> d
      | Some region \<Rightarrow>
          (let a = extractEmailData (currentPlatform d) accountEmail (Some region)
           in if activityType a \<noteq> None \<and> activityType a \<noteq> Some []
              then dispatchActivity out (Some a) (d\<lparr>lastDispatchAt := t\<rparr>)
              else d))"

text \<open>
  The click handlers of the send buttons. Gmail's gives up when no compose region is
  found; Outlook's extracts from whatever \<^verbatim>\<open>closest\<close> returned.
\<close>

definition sendButtonClicked ::
    "(nat \<Rightarrow> send_outcome) \<Rightarrow> string option \<Rightarrow> compose_root option \<Rightarrow> dispatcher
       \<Rightarrow> dispatcher" where
  "sendButtonClicked out accountEmail composeRoot d =
     (case currentPlatform d of
        GMAIL \<Rightarrow>
          (case composeRoot of
             None \<Rightarrow> d
           | Some region \<Rightarrow>
               (let a = extractGmailEmailData accountEmail (Some region)
                in if activityType a = None \<or> activityType a = Some [] then d
                   else dispatchActivity out (Some a) d))
      | OUTLOOK \<Rightarrow>
          dispatchActivity out (Some (extractOutlookEmailData accountEmail composeRoot)) d)"

section \<open>Notions the claims use\<close>

text \<open>
  A string is a valid absolute URL when the \<^verbatim>\<open>URL\<close> constructor accepts it. The
  configuration invariant of the Coordinator: the mode is one of the two enum values and
  the backend URL is valid or the compiled-in default.
\<close>

definition valid_absolute_url :: "platform_api \<Rightarrow> string \<Rightarrow> bool" where
  "valid_absolute_url P u \<longleftrightarrow> URL_href P u \<noteq> None"

definition config_ok :: "platform_api \<Rightarrow> state \<Rightarrow> bool" where
  "config_ok P st \<longleftrightarrow>
     (mode st = ''awareness'' \<or> mode st = ''silent'')
     \<and> (valid_absolute_url P (backendBaseUrl st) \<or> backendBaseUrl st = DEFAULT_BACKEND_BASE_URL)"

text \<open>
  A property of the browser's \<^verbatim>\<open>URL\<close> that the code relies on when it stores a
  serialisation without its final slash: the shortened string is still accepted.
\<close>

definition serialisation_reparses :: "platform_api \<Rightarrow> bool" where
  "serialisation_reparses P \<longleftrightarrow>
     (\<forall>s href. URL_href P s = Some href \<longrightarrow> URL_href P (strip_trailing_slash href) \<noteq> None)"

text \<open>The values the declaration of \<^verbatim>\<open>STATE\<close> lists for \<^verbatim>\<open>lastSyncStatus\<close>.\<close>

definition sync_status_enum :: "string set" where
  "sync_status_enum = {''idle'', ''syncing'', ''success'', ''error''}"

section \<open>Concrete inputs\<close>

text \<open>
  A fragment of the \<^verbatim>\<open>URL\<close> constructor on which the examples run: an \<^verbatim>\<open>http\<close> or
  \<^verbatim>\<open>https\<close> origin whose host is made of dot-separated labels of lower-case letters, with
  or without the final slash, and the compiled-in default. On these the browser answers
  the same; it accepts many more strings, which the fragment leaves out.
\<close>

fun host_labels :: "bool \<Rightarrow> string \<Rightarrow> bool" where
  "host_labels after_letter [] = after_letter"
| "host_labels after_letter (c # cs) =
     (if c \<in> set ''abcdefghijklmnopqrstuvwxyz'' then host_labels True cs
      else if c = CHR ''.'' \<and> after_letter then host_labels False cs
      else False)"

definition origin_href :: "string \<Rightarrow> string \<Rightarrow> string option" where
  "origin_href scheme rest =
     (let h = strip_trailing_slash rest
      in if host_labels False h then Some (scheme @ h @ ''/'') else None)"

definition URL_href_sample :: "string \<Rightarrow> string option" where
  "URL_href_sample s =
     (if s = ''http://127.0.0.1:5000'' \<or> s = ''http://127.0.0.1:5000/''
      then Some ''http://127.0.0.1:5000/''
      else if take 8 s = ''https://'' then origin_href ''https://'' (drop 8 s)
      else if take 7 s = ''http://'' then origin_href ''http://'' (drop 7 s)
      else None)"

definition sample_platform :: platform_api where
  "sample_platform = \<lparr> URL_href = URL_href_sample,
     URL_resolves = (\<lambda>base. URL_href_sample base \<noteq> None), manifest_version = ''1.0.0'' \<rparr>"

definition sample_env :: "int \<Rightarrow> probe_outcome \<Rightarrow> post_outcome \<Rightarrow> env" where
  "sample_env t h r = \<lparr> clock = t, isoTime = ''2024-05-01T10:00:00.000Z'', probe = h, post = r \<rparr>"

text \<open>A world in which the handler runs are 3000 ms apart and the backend accepts.\<close>

definition calm_world :: "nat \<Rightarrow> env" where
  "calm_world k = sample_env (10000 + 3000 * int k) ProbeOk PostAccepted"

text \<open>
  Three message channels: one whose every send is answered with an acknowledgement, one
  whose every send reports \<^verbatim>\<open>lastError\<close>, one whose every send throws.
\<close>

definition channel_up :: "nat \<Rightarrow> send_outcome" where
  "channel_up k = Callback Acknowledged"

definition channel_down :: "nat \<Rightarrow> send_outcome" where
  "channel_down k = LastError"

definition channel_throws :: "nat \<Rightarrow> send_outcome" where
  "channel_throws k = SendThrows"

definition ctrl_enter :: key_event where
  "ctrl_enter = \<lparr> is_enter = True, ctrlKey = True, metaKey = False \<rparr>"

text \<open>The event \<^verbatim>\<open>{provider:"a", subject:"x", sender:"s", recipients:["r"]}\<close>.\<close>

definition sample_activity :: activity where
  "sample_activity = \<lparr> activityType = Some ''email'', provider = Some ''a'', subject = Some ''x'',
     sender = Some ''s'', recipientsOf = RecipientList [''r''], bodyPreview = [],
     attachmentCount = 0, attachmentBytes = 0 \<rparr>"

definition other_activity :: activity where
  "other_activity = sample_activity\<lparr>subject := Some ''y''\<rparr>"

definition sample_message :: activity_message where
  "sample_message = \<lparr> msg_platform = Some ''gmail'', msg_mode = ''awareness'',
     msg_payload = Some sample_activity \<rparr>"

text \<open>A store whose mode is a number and whose backend URL is a boolean.\<close>

definition corrupt_store :: store where
  "corrupt_store = store_empty\<lparr>s_mode := JNum 7, s_backendBaseUrl := JBool True\<rparr>"

text \<open>A queue \<open>[A, B, C]\<close> whose middle entry is \<^verbatim>\<open>null\<close>.\<close>

definition queue_ABC :: "queue_entry list" where
  "queue_ABC = [Entry (Some sample_activity) (Some ''gmail''), NullEntry,
     Entry (Some other_activity) (Some ''gmail'')]"

text \<open>A warm Coordinator: rehydrated from an empty store, nothing sent yet.\<close>

definition warm_coordinator :: coordinator where
  "warm_coordinator = (coordinator_initial store_empty)\<lparr>stateReady := True\<rparr>"

text \<open>
  The same Coordinator after one delivered event: one activity counted, status
  \<open>success\<close>, a sync time recorded.
\<close>

definition busy_coordinator :: coordinator where
  "busy_coordinator = handleActivityEvent sample_platform (calm_world 0) (Some sample_activity)
     (Some ''gmail'') ''awareness'' warm_coordinator"

text \<open>A compose region with one attachment chip and no size text anywhere.\<close>

definition region_without_sizes :: compose_root where
  "region_without_sizes = \<lparr> to_text = ''bob@example.com'', subject_value = ''Report'',
     body_text = ''Please find the file attached.'', attachment_items = Some 1,
     candidate_texts = [''Report'', ''report.pdf'', ''Send''],
     tooltip_texts = [''Report'', ''report.pdf'', ''Send''] \<rparr>"

definition region_with_sizes :: compose_root where
  "region_with_sizes = region_without_sizes\<lparr>
     candidate_texts := [''Report'', ''report.pdf (512 KB)'', ''notes.txt 1.5 MB'', ''Send''],
     tooltip_texts := [''Report'', ''report.pdf (512 KB)'', ''notes.txt 1.5 MB'', ''Send'']\<rparr>"

section \<open>Properties of the Coordinator\<close>

subsection \<open>Frame lemmas\<close>

lemma STATE_emit: "STATE (emit x c) = STATE c"
  by (simp add: emit_def)

lemma storage_emit: "storage (emit x c) = storage c"
  by (simp add: emit_def)

lemma STATE_persistState: "STATE (persistState ks c) = STATE c"
  by (simp add: persistState_def Let_def emit_def)

lemma STATE_set_state: "STATE (set_state f c) = f (STATE c)"
  by (simp add: set_state_def)

lemma storage_set_state: "storage (set_state f c) = storage c"
  by (simp add: set_state_def)

lemma total_write_key:
  "s_totalActivitiesTracked (write_key st k s) =
     (if k = K_totalActivitiesTracked then Some (totalActivitiesTracked st)
      else s_totalActivitiesTracked s)"
  by (cases k) simp_all

lemma total_fold_write_key:
  "s_totalActivitiesTracked (fold (write_key st) ks s) =
     (if K_totalActivitiesTracked \<in> set ks then Some (totalActivitiesTracked st)
      else s_totalActivitiesTracked s)"
  by (induction ks arbitrary: s) (auto simp: total_write_key)

lemma total_persistState:
  "s_totalActivitiesTracked (storage (persistState ks c)) =
     (if ks = [] \<or> K_totalActivitiesTracked \<in> set ks
      then Some (totalActivitiesTracked (STATE c))
      else s_totalActivitiesTracked (storage c))"
  by (auto simp: persistState_def Let_def emit_def total_fold_write_key filter_empty_conv)

lemma total_sendActivityToBackend:
  "totalActivitiesTracked (snd (sendActivityToBackend P e st)) = totalActivitiesTracked st"
  by (auto simp: sendActivityToBackend_def performHealthCheck_def Let_def
      split: sum.splits prod.splits if_splits)

lemma fingerprint_nonempty: "fingerprint p \<noteq> []"
  by (simp add: fingerprint_def split: option.splits)

lemma is_duplicate_iff:
  "is_duplicate c t (fingerprint p) \<longleftrightarrow>
     lastActivityFingerprint c = Some (fingerprint p) \<and> t - lastActivityAt c < 2000"
  using fingerprint_nonempty [of p]
  by (auto simp: is_duplicate_def split: option.splits)

lemma total_sync_succeeded:
  "totalActivitiesTracked (STATE (sync_succeeded e c)) = totalActivitiesTracked (STATE c)"
  "s_totalActivitiesTracked (storage (sync_succeeded e c)) = s_totalActivitiesTracked (storage c)"
  by (simp_all add: sync_succeeded_def STATE_emit storage_emit STATE_persistState
        total_persistState STATE_set_state storage_set_state)

lemma total_sync_failed:
  "totalActivitiesTracked (STATE (sync_failed e c)) = totalActivitiesTracked (STATE c)"
  "s_totalActivitiesTracked (storage (sync_failed e c)) = s_totalActivitiesTracked (storage c)"
  by (simp_all add: sync_failed_def STATE_emit storage_emit STATE_persistState
        total_persistState STATE_set_state storage_set_state)

lemma total_deliver:
  "totalActivitiesTracked (STATE (deliver P e c)) = totalActivitiesTracked (STATE c)"
  "s_totalActivitiesTracked (storage (deliver P e c)) = s_totalActivitiesTracked (storage c)"
  using total_sendActivityToBackend [of P e "STATE c"]
  by (auto simp: deliver_def total_sync_succeeded total_sync_failed
      split: prod.splits option.splits)

lemma total_notify_detected:
  "totalActivitiesTracked (STATE (notify_detected pf c)) = totalActivitiesTracked (STATE c)"
  "s_totalActivitiesTracked (storage (notify_detected pf c)) = s_totalActivitiesTracked (storage c)"
  by (simp_all add: notify_detected_def STATE_emit storage_emit)

lemma total_mark_syncing:
  "totalActivitiesTracked (STATE (mark_syncing e c)) = totalActivitiesTracked (STATE c)"
  "s_totalActivitiesTracked (storage (mark_syncing e c)) = s_totalActivitiesTracked (storage c)"
  by (simp_all add: mark_syncing_def STATE_emit storage_emit STATE_persistState
        total_persistState STATE_set_state storage_set_state)

lemma total_count_detected:
  "totalActivitiesTracked (STATE (count_detected c)) = totalActivitiesTracked (STATE c) + 1"
  "s_totalActivitiesTracked (storage (count_detected c)) = Some (totalActivitiesTracked (STATE c) + 1)"
  by (simp_all add: count_detected_def STATE_persistState total_persistState STATE_set_state)

lemma handleActivityEvent_accepted:
  assumes "\<not> is_duplicate c (clock e) (fingerprint p)"
  shows "totalActivitiesTracked (STATE (handleActivityEvent P e (Some p) pf md c))
           = totalActivitiesTracked (STATE c) + 1"
    and "s_totalActivitiesTracked (storage (handleActivityEvent P e (Some p) pf md c))
           = Some (totalActivitiesTracked (STATE c) + 1)"
  using assms
  by (simp_all add: handleActivityEvent_def total_deliver total_notify_detected
        total_mark_syncing total_count_detected)

text \<open>What an accepted event leaves in the dedupe variables.\<close>

lemma dedupe_emit:
  "lastActivityFingerprint (emit x c) = lastActivityFingerprint c"
  "lastActivityAt (emit x c) = lastActivityAt c"
  by (simp_all add: emit_def)

lemma dedupe_persistState:
  "lastActivityFingerprint (persistState ks c) = lastActivityFingerprint c"
  "lastActivityAt (persistState ks c) = lastActivityAt c"
  by (simp_all add: persistState_def Let_def emit_def)

lemma dedupe_set_state:
  "lastActivityFingerprint (set_state f c) = lastActivityFingerprint c"
  "lastActivityAt (set_state f c) = lastActivityAt c"
  by (simp_all add: set_state_def)

lemma dedupe_steps:
  "lastActivityFingerprint (deliver P e c) = lastActivityFingerprint c"
  "lastActivityAt (deliver P e c) = lastActivityAt c"
  "lastActivityFingerprint (notify_detected pf c) = lastActivityFingerprint c"
  "lastActivityAt (notify_detected pf c) = lastActivityAt c"
  "lastActivityFingerprint (mark_syncing e c) = lastActivityFingerprint c"
  "lastActivityAt (mark_syncing e c) = lastActivityAt c"
  "lastActivityFingerprint (count_detected c) = lastActivityFingerprint c"
  "lastActivityAt (count_detected c) = lastActivityAt c"
  by (simp_all add: deliver_def sync_succeeded_def sync_failed_def notify_detected_def
        mark_syncing_def count_detected_def dedupe_emit dedupe_persistState dedupe_set_state
        split: prod.splits option.splits)

lemma handleActivityEvent_records_fingerprint:
  assumes "\<not> is_duplicate c (clock e) (fingerprint p)"
  shows "lastActivityFingerprint (handleActivityEvent P e (Some p) pf md c) = Some (fingerprint p)"
    and "lastActivityAt (handleActivityEvent P e (Some p) pf md c) = clock e"
  using assms by (simp_all add: handleActivityEvent_def dedupe_steps)

subsection \<open>Claims\<close>

text \<open>
  C10. A call of \<^verbatim>\<open>handleActivityEvent\<close> with a missing or empty payload returns at once:
  the counter, the sync status and time, the stored fingerprint, the storage (with the
  persisted queue) and the list of effects are what they were.
\<close>

theorem handleActivityEvent_empty_payload:
  "handleActivityEvent P e None pf md c = c"
  by (simp add: handleActivityEvent_def)

theorem handleActivityEvent_empty_payload_witness:
  "handleActivityEvent sample_platform (calm_world 0) None (Some ''gmail'') ''awareness''
     warm_coordinator = warm_coordinator"
  by (rule handleActivityEvent_empty_payload)

text \<open>
  C1, as stated, fails. The Coordinator keeps one fingerprint, that of the last event it
  accepted, so an event is only compared with its immediate predecessor. Event \<open>A\<close> at
  10000 ms, a different event \<open>B\<close> at 10300 ms and \<open>A\<close> again at 10600 ms are counted
  three times, although the third has the fingerprint of an event accepted 600 ms before.
\<close>

theorem interleaved_duplicate_is_counted_again:
  "fingerprint other_activity \<noteq> fingerprint sample_activity
   \<and> totalActivitiesTracked (STATE
       (handleActivityEvent sample_platform (sample_env 10300 ProbeOk PostAccepted)
          (Some other_activity) (Some ''gmail'') ''awareness''
          (handleActivityEvent sample_platform (sample_env 10000 ProbeOk PostAccepted)
             (Some sample_activity) (Some ''gmail'') ''awareness'' warm_coordinator))) = 2
   \<and> totalActivitiesTracked (STATE
       (handleActivityEvent sample_platform (sample_env 10600 ProbeOk PostAccepted)
          (Some sample_activity) (Some ''gmail'') ''awareness''
          (handleActivityEvent sample_platform (sample_env 10300 ProbeOk PostAccepted)
             (Some other_activity) (Some ''gmail'') ''awareness''
             (handleActivityEvent sample_platform (sample_env 10000 ProbeOk PostAccepted)
                (Some sample_activity) (Some ''gmail'') ''awareness'' warm_coordinator)))) = 3"
  by code_simp

text \<open>
  C1, amended. An event with a payload whose fingerprint differs from that of the most
  recently accepted event, or that arrives 2000 ms or more after that event was accepted,
  raises \<open>totalActivitiesTracked\<close> by exactly one and writes the new value to storage,
  whatever the health probe and the delivery answer (\<open>P\<close> and \<open>e\<close> are arbitrary); an
  event whose fingerprint is that of the most recently accepted event and that arrives
  less than 2000 ms after it changes nothing.
\<close>

theorem totalActivitiesTracked_once_per_detected_activity:
  "(lastActivityFingerprint c \<noteq> Some (fingerprint p) \<or> 2000 \<le> clock e - lastActivityAt c
      \<longrightarrow> totalActivitiesTracked (STATE (handleActivityEvent P e (Some p) pf md c))
            = totalActivitiesTracked (STATE c) + 1
        \<and> s_totalActivitiesTracked (storage (handleActivityEvent P e (Some p) pf md c))
            = Some (totalActivitiesTracked (STATE c) + 1))
   \<and> (lastActivityFingerprint c = Some (fingerprint p) \<and> clock e - lastActivityAt c < 2000
      \<longrightarrow> handleActivityEvent P e (Some p) pf md c = c)"
proof (intro conjI impI)
  assume "lastActivityFingerprint c \<noteq> Some (fingerprint p) \<or> 2000 \<le> clock e - lastActivityAt c"
  then have nd: "\<not> is_duplicate c (clock e) (fingerprint p)"
    by (auto simp: is_duplicate_iff)
  show "totalActivitiesTracked (STATE (handleActivityEvent P e (Some p) pf md c))
            = totalActivitiesTracked (STATE c) + 1"
    by (rule handleActivityEvent_accepted(1) [OF nd])
  show "s_totalActivitiesTracked (storage (handleActivityEvent P e (Some p) pf md c))
            = Some (totalActivitiesTracked (STATE c) + 1)"
    by (rule handleActivityEvent_accepted(2) [OF nd])
next
  assume "lastActivityFingerprint c = Some (fingerprint p) \<and> clock e - lastActivityAt c < 2000"
  then have "is_duplicate c (clock e) (fingerprint p)"
    by (simp add: is_duplicate_iff)
  then show "handleActivityEvent P e (Some p) pf md c = c"
    by (simp add: handleActivityEvent_def)
qed

text \<open>
  The first event reaches a fresh Coordinator at 10000 ms and is delivered; the same
  event arrives again at 10500 ms while the backend rejects.
\<close>

theorem totalActivitiesTracked_once_per_detected_activity_witness:
  "totalActivitiesTracked (STATE (handleActivityEvent sample_platform
       (sample_env 10000 ProbeOk PostAccepted) (Some sample_activity) (Some ''gmail'')
       ''awareness'' warm_coordinator)) = 1
   \<and> s_totalActivitiesTracked (storage (handleActivityEvent sample_platform
       (sample_env 10000 ProbeOk PostAccepted) (Some sample_activity) (Some ''gmail'')
       ''awareness'' warm_coordinator)) = Some 1
   \<and> handleActivityEvent sample_platform (sample_env 10500 ProbeOk PostRejected)
       (Some sample_activity) (Some ''gmail'') ''awareness''
       (handleActivityEvent sample_platform (sample_env 10000 ProbeOk PostAccepted)
          (Some sample_activity) (Some ''gmail'') ''awareness'' warm_coordinator)
     = handleActivityEvent sample_platform (sample_env 10000 ProbeOk PostAccepted)
          (Some sample_activity) (Some ''gmail'') ''awareness'' warm_coordinator"
proof -
  let ?e1 = "sample_env 10000 ProbeOk PostAccepted"
  let ?e2 = "sample_env 10500 ProbeOk PostRejected"
  let ?c1 = "handleActivityEvent sample_platform ?e1 (Some sample_activity) (Some ''gmail'')
       ''awareness'' warm_coordinator"
  have fresh: "lastActivityFingerprint warm_coordinator = None"
    and zero: "totalActivitiesTracked (STATE warm_coordinator) = 0"
    by (simp_all add: warm_coordinator_def coordinator_initial_def STATE_initial_def)
  have nd: "\<not> is_duplicate warm_coordinator (clock ?e1) (fingerprint sample_activity)"
    by (simp add: is_duplicate_def fresh)
  have first: "totalActivitiesTracked (STATE ?c1) = 1 \<and> s_totalActivitiesTracked (storage ?c1) = Some 1"
    using totalActivitiesTracked_once_per_detected_activity
      [of warm_coordinator sample_activity ?e1 sample_platform "Some ''gmail''" "''awareness''"]
    by (simp add: fresh zero)
  have t1: "clock ?e1 = 10000" and t2: "clock ?e2 = 10500"
    by (simp_all add: sample_env_def)
  have stored: "lastActivityFingerprint ?c1 = Some (fingerprint sample_activity)"
    and at: "lastActivityAt ?c1 = clock ?e1"
    by (rule handleActivityEvent_records_fingerprint [OF nd])+
  have second: "handleActivityEvent sample_platform ?e2 (Some sample_activity) (Some ''gmail'')
       ''awareness'' ?c1 = ?c1"
    using totalActivitiesTracked_once_per_detected_activity
      [of ?c1 sample_activity ?e2 sample_platform "Some ''gmail''" "''awareness''"]
    by (simp only: stored at t1 t2) simp
  from first second show ?thesis by simp
qed

subsection \<open>The queue write commutes with event handling\<close>

lemma setPendingActivities_twice:
  "setPendingActivities q (setPendingActivities r c) = setPendingActivities q c"
  by (simp add: setPendingActivities_def)

lemma STATE_setPendingActivities: "STATE (setPendingActivities r c) = STATE c"
  by (simp add: setPendingActivities_def)

lemma queue_setPendingActivities:
  "s_pendingActivities (storage (setPendingActivities r c)) = r"
  by (simp add: setPendingActivities_def)

lemma emit_setPendingActivities:
  "emit x (setPendingActivities r c) = setPendingActivities r (emit x c)"
  by (simp add: setPendingActivities_def emit_def)

lemma set_state_setPendingActivities:
  "set_state f (setPendingActivities r c) = setPendingActivities r (set_state f c)"
  by (simp add: setPendingActivities_def set_state_def)

lemma write_key_queue:
  "write_key st k (s\<lparr>s_pendingActivities := r\<rparr>) = (write_key st k s)\<lparr>s_pendingActivities := r\<rparr>"
  by (cases k) simp_all

lemma fold_write_key_queue:
  "fold (write_key st) ks (s\<lparr>s_pendingActivities := r\<rparr>)
     = (fold (write_key st) ks s)\<lparr>s_pendingActivities := r\<rparr>"
  by (induction ks arbitrary: s) (simp_all add: write_key_queue)

lemma persistState_setPendingActivities:
  "persistState ks (setPendingActivities r c) = setPendingActivities r (persistState ks c)"
  by (simp add: persistState_def Let_def setPendingActivities_def emit_def fold_write_key_queue)

lemma is_duplicate_setPendingActivities:
  "is_duplicate (setPendingActivities r c) t fp = is_duplicate c t fp"
  by (simp add: is_duplicate_def setPendingActivities_def split: option.splits)

lemma sync_succeeded_setPendingActivities:
  "sync_succeeded e (setPendingActivities r c) = setPendingActivities r (sync_succeeded e c)"
  by (simp add: sync_succeeded_def emit_setPendingActivities persistState_setPendingActivities
      set_state_setPendingActivities)

lemma sync_failed_setPendingActivities:
  "sync_failed e (setPendingActivities r c) = setPendingActivities r (sync_failed e c)"
  by (simp add: sync_failed_def emit_setPendingActivities persistState_setPendingActivities
      set_state_setPendingActivities)

lemma update_setPendingActivities:
  "(setPendingActivities r c)\<lparr>lastActivityFingerprint := a, lastActivityAt := b\<rparr>
     = setPendingActivities r (c\<lparr>lastActivityFingerprint := a, lastActivityAt := b\<rparr>)"
  "(setPendingActivities r c)\<lparr>STATE := st\<rparr> = setPendingActivities r (c\<lparr>STATE := st\<rparr>)"
  by (simp_all add: setPendingActivities_def)

lemma steps_setPendingActivities:
  "count_detected (setPendingActivities r c) = setPendingActivities r (count_detected c)"
  "mark_syncing e (setPendingActivities r c) = setPendingActivities r (mark_syncing e c)"
  "notify_detected pf (setPendingActivities r c) = setPendingActivities r (notify_detected pf c)"
  "deliver P e (setPendingActivities r c) = setPendingActivities r (deliver P e c)"
  by (auto simp: count_detected_def mark_syncing_def notify_detected_def deliver_def
        set_state_setPendingActivities persistState_setPendingActivities
        emit_setPendingActivities STATE_setPendingActivities update_setPendingActivities
        sync_succeeded_setPendingActivities sync_failed_setPendingActivities
        split: prod.splits option.splits)

lemma handleActivityEvent_setPendingActivities:
  "handleActivityEvent P e payload pf md (setPendingActivities r c)
     = setPendingActivities r (handleActivityEvent P e payload pf md c)"
  by (simp add: handleActivityEvent_def is_duplicate_setPendingActivities
        update_setPendingActivities steps_setPendingActivities split: option.splits)

lemma handle_in_order_setPendingActivities:
  "handle_in_order P E k l (setPendingActivities r c)
     = setPendingActivities r (handle_in_order P E k l c)"
proof (induction l arbitrary: k c)
  case Nil
  show ?case by simp
next
  case (Cons x l)
  show ?case
  proof (cases x)
    case NullEntry
    then show ?thesis by simp
  next
    case (Entry payload pf)
    then show ?thesis
      by (simp add: Cons.IH handleActivityEvent_setPendingActivities STATE_setPendingActivities)
  qed
qed

lemma drain_loop_unfolded:
  "drain_loop P E k l c =
     (if takeWhile (\<lambda>x. \<not> throws_on x) l = [] then c
      else setPendingActivities (dropWhile (\<lambda>x. \<not> throws_on x) l)
             (handle_in_order P E k (takeWhile (\<lambda>x. \<not> throws_on x) l) c))"
proof (induction l arbitrary: k c)
  case Nil
  show ?case by simp
next
  case (Cons x l)
  show ?case
  proof (cases x)
    case NullEntry
    then show ?thesis by (simp add: throws_on_def)
  next
    case (Entry payload pf)
    have rest: "takeWhile (\<lambda>x. \<not> throws_on x) l = [] \<Longrightarrow> dropWhile (\<lambda>x. \<not> throws_on x) l = l"
      by (cases l) (auto split: if_splits)
    from Entry show ?thesis
      by (simp add: Cons.IH throws_on_def handle_in_order_setPendingActivities
          setPendingActivities_twice rest [unfolded throws_on_def])
  qed
qed

lemma drain_loop_queue:
  "s_pendingActivities (storage c) = l \<Longrightarrow>
     s_pendingActivities (storage (drain_loop P E k l c)) = dropWhile (\<lambda>x. \<not> throws_on x) l"
  by (cases l) (auto simp: drain_loop_unfolded queue_setPendingActivities)


text \<open>
  C4. The drain handles the persisted queue from the front. What it leaves in storage is
  the queue from the first entry whose handling throws onwards, in the original order
  (nothing, when no handling throws); the Coordinator it leaves is the one obtained by
  handling the entries before that one, first to last, and then writing the rest back.
  So for a queue \<open>pre @ b # post\<close> where only \<open>b\<close> throws, the queue ends as
  \<open>b # post\<close>.
\<close>

theorem drain_is_fifo_and_halts_at_first_failure:
  "getPendingActivities (processPendingActivities P E k c)
      = dropWhile (\<lambda>x. \<not> throws_on x) (getPendingActivities c)
   \<and> processPendingActivities P E k c
      = (if takeWhile (\<lambda>x. \<not> throws_on x) (getPendingActivities c) = [] then c
         else setPendingActivities (dropWhile (\<lambda>x. \<not> throws_on x) (getPendingActivities c))
                (handle_in_order P E k
                   (takeWhile (\<lambda>x. \<not> throws_on x) (getPendingActivities c)) c))
   \<and> (\<forall>pre b post.
         (\<forall>x \<in> set pre. \<not> throws_on x) \<and> throws_on b
           \<and> getPendingActivities c = pre @ b # post
         \<longrightarrow> getPendingActivities (processPendingActivities P E k c) = b # post)"
proof (intro conjI allI impI)
  show q: "getPendingActivities (processPendingActivities P E k c)
      = dropWhile (\<lambda>x. \<not> throws_on x) (getPendingActivities c)"
    by (simp add: processPendingActivities_def getPendingActivities_def drain_loop_queue)
  show "processPendingActivities P E k c
      = (if takeWhile (\<lambda>x. \<not> throws_on x) (getPendingActivities c) = [] then c
         else setPendingActivities (dropWhile (\<lambda>x. \<not> throws_on x) (getPendingActivities c))
                (handle_in_order P E k
                   (takeWhile (\<lambda>x. \<not> throws_on x) (getPendingActivities c)) c))"
    unfolding processPendingActivities_def by (rule drain_loop_unfolded)
  fix pre b post
  assume "(\<forall>x \<in> set pre. \<not> throws_on x) \<and> throws_on b
           \<and> getPendingActivities c = pre @ b # post"
  then have "dropWhile (\<lambda>x. \<not> throws_on x) (getPendingActivities c) = b # post"
    by (simp add: dropWhile_append3)
  with q show "getPendingActivities (processPendingActivities P E k c) = b # post"
    by simp
qed

text \<open>The queue \<open>[A, B, C]\<close> whose middle entry is \<^verbatim>\<open>null\<close> ends as \<open>[B, C]\<close>.\<close>

theorem drain_is_fifo_and_halts_at_first_failure_witness:
  "getPendingActivities (processPendingActivities sample_platform calm_world 0
       (setPendingActivities queue_ABC warm_coordinator))
     = [NullEntry, Entry (Some other_activity) (Some ''gmail'')]"
proof -
  let ?c = "setPendingActivities queue_ABC warm_coordinator"
  have shape: "(\<forall>x \<in> set [Entry (Some sample_activity) (Some ''gmail'')]. \<not> throws_on x)
      \<and> throws_on NullEntry
      \<and> getPendingActivities ?c = [Entry (Some sample_activity) (Some ''gmail'')]
            @ NullEntry # [Entry (Some other_activity) (Some ''gmail'')]"
    by (simp add: throws_on_def getPendingActivities_def setPendingActivities_def queue_ABC_def)
  from drain_is_fifo_and_halts_at_first_failure [of sample_platform calm_world 0 ?c] shape
  show ?thesis by blast
qed

text \<open>
  C9. On a Coordinator that has completed rehydration, \<^verbatim>\<open>clearStats()\<close> followed by a
  \<^verbatim>\<open>GET_STATE\<close> query is answered, and the state in the answer has
  \<open>totalActivitiesTracked = 0\<close>, \<open>lastSyncStatus\<close> equal to \<open>idle\<close> or \<open>synced\<close>,
  and no \<open>lastSyncAt\<close>. (Before rehydration completes no query is answered.)
\<close>

theorem clearStats_then_GET_STATE:
  assumes "stateReady c"
  shows "\<exists>r. onPopupMessage P e GET_STATE (clearStats c) = Some (r, clearStats c)
           \<and> success r
           \<and> totalActivitiesTracked (fst (reply_state r)) = 0
           \<and> (lastSyncStatus (fst (reply_state r)) = ''idle''
                \<or> lastSyncStatus (fst (reply_state r)) = ''synced'')
           \<and> lastSyncAt (fst (reply_state r)) = None"
proof -
  have ready: "stateReady (clearStats c)"
    using assms by (simp add: clearStats_def persistState_def Let_def emit_def set_state_def)
  have st: "STATE (clearStats c) = (STATE c)\<lparr>totalActivitiesTracked := 0,
      lastSyncStatus := ''synced'', lastSyncAt := None\<rparr>"
    by (simp add: clearStats_def STATE_persistState STATE_set_state)
  have "onPopupMessage P e GET_STATE (clearStats c) = Some (ok_reply P (clearStats c), clearStats c)"
    using ready by (simp add: onPopupMessage_def handlePopupMessage_def)
  then show ?thesis
    by (simp add: ok_reply_def getSerializableState_def st)
qed

text \<open>
  On the Coordinator that has counted one activity and recorded a successful sync, the
  answer after \<^verbatim>\<open>clearStats\<close> shows the counter and the sync time cleared.
\<close>

theorem clearStats_then_GET_STATE_witness:
  "totalActivitiesTracked (STATE busy_coordinator) = 1
   \<and> lastSyncStatus (STATE busy_coordinator) = ''success''
   \<and> lastSyncAt (STATE busy_coordinator) = Some ''2024-05-01T10:00:00.000Z''
   \<and> (\<exists>r. onPopupMessage sample_platform (calm_world 1) GET_STATE
            (clearStats busy_coordinator) = Some (r, clearStats busy_coordinator)
         \<and> success r
         \<and> totalActivitiesTracked (fst (reply_state r)) = 0
         \<and> (lastSyncStatus (fst (reply_state r)) = ''idle''
              \<or> lastSyncStatus (fst (reply_state r)) = ''synced'')
         \<and> lastSyncAt (fst (reply_state r)) = None)"
proof -
  have before: "totalActivitiesTracked (STATE busy_coordinator) = 1
      \<and> lastSyncStatus (STATE busy_coordinator) = ''success''
      \<and> lastSyncAt (STATE busy_coordinator) = Some ''2024-05-01T10:00:00.000Z''"
    by code_simp
  have ready: "stateReady busy_coordinator"
    by code_simp
  from before clearStats_then_GET_STATE [OF ready, of sample_platform "calm_world 1"]
  show ?thesis by blast
qed

subsection \<open>The sync status under the other operations\<close>

text \<open>
  Every operation but \<^verbatim>\<open>clearStats\<close> keeps \<open>lastSyncStatus\<close> inside the enumeration:
  an accepted event ends in \<open>success\<close> or \<open>error\<close>, and nothing else assigns the field.
\<close>

lemma status_sendActivityToBackend:
  "lastSyncStatus (snd (sendActivityToBackend P e st)) = lastSyncStatus st"
  by (auto simp: sendActivityToBackend_def performHealthCheck_def Let_def
      split: sum.splits prod.splits if_splits)

lemma status_deliver:
  "lastSyncStatus (STATE (deliver P e c)) = ''success''
   \<or> lastSyncStatus (STATE (deliver P e c)) = ''error''"
  by (auto simp: deliver_def sync_succeeded_def sync_failed_def STATE_emit STATE_persistState
      STATE_set_state split: prod.splits option.splits)

lemma status_handleActivityEvent:
  "lastSyncStatus (STATE (handleActivityEvent P e payload pf md c)) = lastSyncStatus (STATE c)
   \<or> lastSyncStatus (STATE (handleActivityEvent P e payload pf md c)) = ''success''
   \<or> lastSyncStatus (STATE (handleActivityEvent P e payload pf md c)) = ''error''"
  using status_deliver by (auto simp: handleActivityEvent_def split: option.splits)

lemma status_enum_handleActivityEvent:
  "lastSyncStatus (STATE c) \<in> sync_status_enum \<Longrightarrow>
     lastSyncStatus (STATE (handleActivityEvent P e payload pf md c)) \<in> sync_status_enum"
  using status_handleActivityEvent [of P e payload pf md c]
  by (auto simp: sync_status_enum_def)

lemma status_enum_drain_loop:
  "lastSyncStatus (STATE c) \<in> sync_status_enum \<Longrightarrow>
     lastSyncStatus (STATE (drain_loop P E k l c)) \<in> sync_status_enum"
proof (induction l arbitrary: k c)
  case Nil
  then show ?case by simp
next
  case (Cons x l)
  show ?case
  proof (cases x)
    case NullEntry
    with Cons.prems show ?thesis by simp
  next
    case (Entry payload pf)
    from Cons.prems
    have "lastSyncStatus (STATE (setPendingActivities l
            (handleActivityEvent P (E k) payload pf (mode (STATE c)) c))) \<in> sync_status_enum"
      by (simp add: STATE_setPendingActivities status_enum_handleActivityEvent)
    with Entry show ?thesis by (simp add: Cons.IH)
  qed
qed

lemma status_enum_mutators:
  "lastSyncStatus (STATE (setMode v n c)) = lastSyncStatus (STATE c)"
  "lastSyncStatus (STATE (snd (setBackendBaseUrl P v c))) = lastSyncStatus (STATE c)"
  by (auto simp: setMode_def setBackendBaseUrl_def Let_def broadcastMode_def
      updateExtensionIcon_def STATE_emit STATE_persistState STATE_set_state
      split: sum.splits option.splits)

lemma status_performHealthCheck:
  "performHealthCheck P e force st = Inr (r, st') \<Longrightarrow> lastSyncStatus st' = lastSyncStatus st"
  by (auto simp: performHealthCheck_def Let_def split: if_splits)

text \<open>
  C6. \<^verbatim>\<open>clearStats\<close> leaves \<open>lastSyncStatus\<close> at \<open>synced\<close>, which is none of the four
  values \<open>idle\<close>, \<open>syncing\<close>, \<open>success\<close>, \<open>error\<close> that the declaration of
  \<^verbatim>\<open>STATE\<close> lists: the status leaves the enumeration after this operation, from every
  state.
\<close>

theorem clearStats_leaves_status_enum:
  "lastSyncStatus (STATE (clearStats c)) = ''synced''
   \<and> lastSyncStatus (STATE (clearStats c)) \<notin> sync_status_enum"
  by (simp add: clearStats_def STATE_persistState STATE_set_state sync_status_enum_def)

theorem clearStats_leaves_status_enum_witness:
  "lastSyncStatus (STATE (coordinator_initial store_empty)) \<in> sync_status_enum
   \<and> lastSyncStatus (STATE (clearStats (coordinator_initial store_empty))) \<notin> sync_status_enum"
  using clearStats_leaves_status_enum [of "coordinator_initial store_empty"]
  by (simp add: coordinator_initial_def STATE_initial_def sync_status_enum_def)

subsection \<open>Mode and backend URL are touched by their mutators only\<close>

lemma config_sendActivityToBackend:
  "mode (snd (sendActivityToBackend P e st)) = mode st"
  "backendBaseUrl (snd (sendActivityToBackend P e st)) = backendBaseUrl st"
  by (auto simp: sendActivityToBackend_def performHealthCheck_def Let_def
      split: sum.splits prod.splits if_splits)

lemma config_performHealthCheck:
  assumes "performHealthCheck P e force st = Inr (r, st')"
  shows "mode st' = mode st" and "backendBaseUrl st' = backendBaseUrl st"
  using assms by (auto simp: performHealthCheck_def Let_def split: if_splits)

lemma config_sync:
  "mode (STATE (sync_succeeded e c)) = mode (STATE c)"
  "backendBaseUrl (STATE (sync_succeeded e c)) = backendBaseUrl (STATE c)"
  "mode (STATE (sync_failed e c)) = mode (STATE c)"
  "backendBaseUrl (STATE (sync_failed e c)) = backendBaseUrl (STATE c)"
  by (simp_all add: sync_succeeded_def sync_failed_def STATE_emit STATE_persistState
      STATE_set_state)

lemma config_deliver:
  "mode (STATE (deliver P e c)) = mode (STATE c)"
  "backendBaseUrl (STATE (deliver P e c)) = backendBaseUrl (STATE c)"
  using config_sendActivityToBackend [of P e "STATE c"]
  by (auto simp: deliver_def config_sync split: prod.splits option.splits)

lemma config_steps:
  "mode (STATE (notify_detected pf c)) = mode (STATE c)"
  "backendBaseUrl (STATE (notify_detected pf c)) = backendBaseUrl (STATE c)"
  "mode (STATE (mark_syncing e c)) = mode (STATE c)"
  "backendBaseUrl (STATE (mark_syncing e c)) = backendBaseUrl (STATE c)"
  "mode (STATE (count_detected c)) = mode (STATE c)"
  "backendBaseUrl (STATE (count_detected c)) = backendBaseUrl (STATE c)"
  by (simp_all add: notify_detected_def mark_syncing_def count_detected_def STATE_emit
      STATE_persistState STATE_set_state)

lemma config_handleActivityEvent:
  "mode (STATE (handleActivityEvent P e payload pf md c)) = mode (STATE c)"
  "backendBaseUrl (STATE (handleActivityEvent P e payload pf md c)) = backendBaseUrl (STATE c)"
  by (simp_all add: handleActivityEvent_def config_deliver config_steps split: option.splits)

lemma config_drain_loop:
  "mode (STATE (drain_loop P E k l c)) = mode (STATE c)
   \<and> backendBaseUrl (STATE (drain_loop P E k l c)) = backendBaseUrl (STATE c)"
proof (induction l arbitrary: k c)
  case Nil
  show ?case by simp
next
  case (Cons x l)
  show ?case
    by (cases x) (simp_all add: Cons.IH STATE_setPendingActivities config_handleActivityEvent)
qed

lemma config_setMode:
  "backendBaseUrl (STATE (setMode v n c)) = backendBaseUrl (STATE c)"
  "mode (STATE (setMode v n c)) =
     (if v = JStr ''silent'' then ''silent'' else ''awareness'')"
  by (simp_all add: setMode_def Let_def broadcastMode_def updateExtensionIcon_def STATE_emit
      STATE_persistState STATE_set_state)

lemma sanitizeBaseUrl_JStr:
  "sanitizeBaseUrl P (JStr s) =
     (if trim s = [] then Inr None
      else case URL_href P (trim s) of
             Some href \<Rightarrow> Inr (Some (strip_trailing_slash href))
           | None \<Rightarrow>
              (case URL_href P (''https://'' @ trim s) of
                 Some href \<Rightarrow> Inr (Some (strip_trailing_slash href))
               | None \<Rightarrow> Inr None))"
proof (cases "s = []")
  case True
  then show ?thesis by (simp add: sanitizeBaseUrl_def trim_def)
next
  case False
  then show ?thesis by (simp add: sanitizeBaseUrl_def Let_def)
qed

lemma sanitizeBaseUrl_not_string:
  "(\<forall>s. v \<noteq> JStr s) \<Longrightarrow>
     sanitizeBaseUrl P v = (if truthy v then Inl TypeError else Inr None)"
  by (cases v) (simp_all add: sanitizeBaseUrl_def)

lemma sanitizeBaseUrl_valid:
  assumes "serialisation_reparses P" and "sanitizeBaseUrl P v = Inr (Some u)"
  shows "valid_absolute_url P u"
proof (cases "\<exists>x. v = JStr x")
  case True
  then obtain x where "v = JStr x" ..
  with assms(2) have
    "(\<exists>h. URL_href P (trim x) = Some h \<and> u = strip_trailing_slash h)
      \<or> (\<exists>h. URL_href P (''https://'' @ trim x) = Some h \<and> u = strip_trailing_slash h)"
    by (auto simp: sanitizeBaseUrl_JStr split: if_splits option.splits)
  with assms(1) show ?thesis
    unfolding serialisation_reparses_def valid_absolute_url_def by blast
next
  case False
  with assms(2) show ?thesis
    by (simp add: sanitizeBaseUrl_not_string split: if_splits)
qed

lemma STATE_rehydrated:
  "mode (STATE (initializeState P E c)) =
     (if s_mode (storage c) = JStr ''silent'' then ''silent'' else ''awareness'')
   \<and> backendBaseUrl (STATE (initializeState P E c)) =
     (case sanitizeBaseUrl P (s_backendBaseUrl (storage c)) of
        Inl err \<Rightarrow> backendBaseUrl (STATE c)
      | Inr None \<Rightarrow> DEFAULT_BACKEND_BASE_URL
      | Inr (Some u) \<Rightarrow> if u = [] then DEFAULT_BACKEND_BASE_URL else u)"
proof (cases "sanitizeBaseUrl P (s_backendBaseUrl (storage c))")
  case (Inl err)
  then show ?thesis
    by (simp add: initializeState_def Let_def STATE_set_state)
next
  case (Inr r)
  define url where "url = (case r of None \<Rightarrow> DEFAULT_BACKEND_BASE_URL
                        | Some u \<Rightarrow> if u = [] then DEFAULT_BACKEND_BASE_URL else u)"
  define c2 where "c2 = set_state (\<lambda>st. st\<lparr>
                        backendBaseUrl := url,
                        totalActivitiesTracked :=
                          (case s_totalActivitiesTracked (storage c) of None \<Rightarrow> 0 | Some n \<Rightarrow> n),
                        lastSyncStatus :=
                          (case s_lastSyncStatus (storage c) of None \<Rightarrow> ''idle''
                           | Some x \<Rightarrow> if x = [] then ''idle'' else x),
                        lastSyncAt :=
                          (case s_lastSyncAt (storage c) of None \<Rightarrow> None
                           | Some t \<Rightarrow> if t = [] then None else Some t)\<rparr>)
                   (set_state (\<lambda>st. st\<lparr>mode :=
                  (if s_mode (storage c) = JStr ''silent'' then ''silent'' else ''awareness'')\<rparr>) c)"
  have c2: "mode (STATE c2) = (if s_mode (storage c) = JStr ''silent'' then ''silent'' else ''awareness'')"
    "backendBaseUrl (STATE c2) = url"
    by (simp_all add: c2_def STATE_set_state)
  have init: "initializeState P E c =
      (case performHealthCheck P (E 0) False (STATE c2) of
         Inl err \<Rightarrow> c2
       | Inr (reachable, st3) \<Rightarrow>
           processPendingActivities P E 1
             ((broadcastMode (updateExtensionIcon (c2\<lparr>STATE := st3\<rparr>)))\<lparr>stateReady := True\<rparr>))"
    unfolding initializeState_def Let_def c2_def url_def using Inr by simp
  have "mode (STATE (initializeState P E c)) = mode (STATE c2)
        \<and> backendBaseUrl (STATE (initializeState P E c)) = backendBaseUrl (STATE c2)"
  proof (cases "performHealthCheck P (E 0) False (STATE c2)")
    case (Inl err)
    with init show ?thesis by simp
  next
    case (Inr res)
    obtain reachable st3 where res: "res = (reachable, st3)" by (cases res)
    from Inr res config_performHealthCheck [of P "E 0" False "STATE c2" reachable st3]
    have "mode st3 = mode (STATE c2)" "backendBaseUrl st3 = backendBaseUrl (STATE c2)"
      by simp_all
    with init Inr res show ?thesis
      by (simp add: processPendingActivities_def config_drain_loop broadcastMode_def
          updateExtensionIcon_def STATE_emit)
  qed
  with c2 Inr show ?thesis
    by (simp add: url_def split: option.splits)
qed


subsection \<open>The URL fragment of the examples\<close>

lemma host_labels_last:
  "host_labels b h \<Longrightarrow> h \<noteq> [] \<Longrightarrow> last h \<noteq> CHR ''/''"
proof (induction h arbitrary: b)
  case Nil
  then show ?case by simp
next
  case (Cons c h)
  show ?case
  proof (cases "h = []")
    case True
    with Cons.prems show ?thesis by (auto split: if_splits)
  next
    case False
    with Cons.prems Cons.IH show ?thesis by (auto split: if_splits)
  qed
qed

lemma host_labels_nonempty: "host_labels False h \<Longrightarrow> h \<noteq> []"
  by (cases h) simp_all

lemma origin_href_host:
  "host_labels False h \<Longrightarrow> origin_href scheme h = Some (scheme @ h @ ''/'')"
  using host_labels_last [of False h] host_labels_nonempty [of h]
  by (simp add: origin_href_def strip_trailing_slash_def)

lemma origin_href_Some:
  assumes "origin_href scheme rest = Some href"
  obtains h where "host_labels False h" and "href = scheme @ h @ ''/''"
  using assms by (auto simp: origin_href_def Let_def split: if_splits)

lemma strip_trailing_slash_snoc: "strip_trailing_slash (xs @ ''/'') = xs"
  by (simp add: strip_trailing_slash_def)

lemma URL_href_sample_https:
  "host_labels False h \<Longrightarrow> URL_href_sample (''https://'' @ h) = Some (''https://'' @ h @ ''/'')"
  by (simp add: URL_href_sample_def origin_href_host)

lemma URL_href_sample_http:
  assumes "host_labels False h"
  shows "URL_href_sample (''http://'' @ h) = Some (''http://'' @ h @ ''/'')"
proof -
  have "h \<noteq> ''127.0.0.1:5000''" and "h \<noteq> ''127.0.0.1:5000/''"
    using assms by auto
  moreover have "take 8 (''http://'' @ h) \<noteq> ''https://''"
    by simp
  ultimately show ?thesis
    using assms by (simp add: URL_href_sample_def origin_href_host)
qed

lemma sample_platform_reparses: "serialisation_reparses sample_platform"
  unfolding serialisation_reparses_def
proof (intro allI impI)
  fix s href
  assume a: "URL_href sample_platform s = Some href"
  then have s: "URL_href_sample s = Some href"
    by (simp add: sample_platform_def)
  have "URL_href_sample (strip_trailing_slash href) \<noteq> None"
  proof (cases "s = ''http://127.0.0.1:5000'' \<or> s = ''http://127.0.0.1:5000/''")
    case True
    with s have "href = ''http://127.0.0.1:5000/''"
      by (auto simp: URL_href_sample_def)
    then show ?thesis
      by (simp add: strip_trailing_slash_def URL_href_sample_def)
  next
    case False
    show ?thesis
    proof (cases "take 8 s = ''https://''")
      case True
      with False s have "origin_href ''https://'' (drop 8 s) = Some href"
        by (simp add: URL_href_sample_def)
      then obtain h where "host_labels False h" and "href = ''https://'' @ h @ ''/''"
        by (rule origin_href_Some)
      then show ?thesis
        using strip_trailing_slash_snoc [of "''https://'' @ h"]
        by (simp add: URL_href_sample_https del: append.simps)
    next
      case nothttps: False
      with False s have "take 7 s = ''http://''" and "origin_href ''http://'' (drop 7 s) = Some href"
        by (auto simp: URL_href_sample_def split: if_splits)
      then obtain h where "host_labels False h" and "href = ''http://'' @ h @ ''/''"
        by (auto elim: origin_href_Some)
      then show ?thesis
        using strip_trailing_slash_snoc [of "''http://'' @ h"]
        by (simp add: URL_href_sample_http del: append.simps)
    qed
  qed
  then show "URL_href sample_platform (strip_trailing_slash href) \<noteq> None"
    by (simp add: sample_platform_def)
qed


text \<open>
  C7. After cold-start rehydration from any store contents, the mode is \<open>silent\<close> when
  the stored mode is the string \<open>silent\<close> and \<open>awareness\<close> for every other stored
  value, and the backend URL is accepted by the \<^verbatim>\<open>URL\<close> constructor or is the compiled-in
  default (also when the stored value makes \<^verbatim>\<open>sanitizeBaseUrl\<close> throw); \<^verbatim>\<open>setMode\<close>
  keeps this for every argument. The browser is assumed to accept again what it
  serialised, without the final slash.
\<close>

theorem rehydrated_configuration_is_valid:
  assumes "serialisation_reparses P"
  shows "config_ok P (STATE (initializeState P E (coordinator_initial s)))
       \<and> (mode (STATE (initializeState P E (coordinator_initial s))) = ''silent''
             \<longleftrightarrow> s_mode s = JStr ''silent'')
       \<and> (config_ok P (STATE c) \<longrightarrow> config_ok P (STATE (setMode v n c)))"
proof (intro conjI impI)
  let ?c = "initializeState P E (coordinator_initial s)"
  have st: "storage (coordinator_initial s) = s"
    and url0: "backendBaseUrl (STATE (coordinator_initial s)) = DEFAULT_BACKEND_BASE_URL"
    by (simp_all add: coordinator_initial_def STATE_initial_def)
  from STATE_rehydrated [of P E "coordinator_initial s"]
  have m: "mode (STATE ?c) = (if s_mode s = JStr ''silent'' then ''silent'' else ''awareness'')"
    and u: "backendBaseUrl (STATE ?c) =
      (case sanitizeBaseUrl P (s_backendBaseUrl s) of
         Inl err \<Rightarrow> backendBaseUrl (STATE (coordinator_initial s))
       | Inr None \<Rightarrow> DEFAULT_BACKEND_BASE_URL
       | Inr (Some u) \<Rightarrow> if u = [] then DEFAULT_BACKEND_BASE_URL else u)"
    by (simp_all add: st)
  have "valid_absolute_url P (backendBaseUrl (STATE ?c))
        \<or> backendBaseUrl (STATE ?c) = DEFAULT_BACKEND_BASE_URL"
  proof (cases "sanitizeBaseUrl P (s_backendBaseUrl s)")
    case (Inl err)
    with u url0 show ?thesis by simp
  next
    case (Inr r)
    show ?thesis
    proof (cases r)
      case None
      with Inr u show ?thesis by simp
    next
      case (Some x)
      with Inr have "valid_absolute_url P x"
        using sanitizeBaseUrl_valid [OF assms] by simp
      with Inr Some u show ?thesis by simp
    qed
  qed
  with m show "config_ok P (STATE ?c)"
    by (simp add: config_ok_def)
  from m show "mode (STATE ?c) = ''silent'' \<longleftrightarrow> s_mode s = JStr ''silent''"
    by simp
next
  assume "config_ok P (STATE c)"
  then show "config_ok P (STATE (setMode v n c))"
    by (simp add: config_ok_def config_setMode)
qed

text \<open>Rehydration from the corrupt store, then \<^verbatim>\<open>setMode\<close> with an object.\<close>

theorem rehydrated_configuration_is_valid_witness:
  "config_ok sample_platform
     (STATE (initializeState sample_platform calm_world (coordinator_initial corrupt_store)))
   \<and> mode (STATE (initializeState sample_platform calm_world (coordinator_initial corrupt_store)))
       \<noteq> ''silent''
   \<and> config_ok sample_platform
       (STATE (setMode JObject False
          (initializeState sample_platform calm_world (coordinator_initial corrupt_store))))"
proof -
  let ?c = "initializeState sample_platform calm_world (coordinator_initial corrupt_store)"
  have "s_mode corrupt_store \<noteq> JStr ''silent''"
    by (simp add: corrupt_store_def)
  with rehydrated_configuration_is_valid
         [OF sample_platform_reparses, of calm_world corrupt_store ?c JObject False]
  show ?thesis by blast
qed

text \<open>
  C5. A string that the \<^verbatim>\<open>URL\<close> constructor accepts neither as it is (trimmed) nor with
  \<open>https://\<close> in front is rejected with the explicit error and the Coordinator is
  unchanged; a string accepted only with \<open>https://\<close> in front becomes the backend URL
  in that completed, serialised form (without the final slash) and is persisted.
\<close>

theorem setBackendBaseUrl_validates:
  "(URL_href P (trim s) = None \<and> URL_href P (''https://'' @ trim s) = None
      \<longrightarrow> setBackendBaseUrl P (JStr s) c = (Some invalid_backend_url, c))
   \<and> (trim s \<noteq> [] \<and> URL_href P (trim s) = None
        \<and> URL_href P (''https://'' @ trim s) = Some href \<and> strip_trailing_slash href \<noteq> []
      \<longrightarrow> fst (setBackendBaseUrl P (JStr s) c) = None
          \<and> backendBaseUrl (STATE (snd (setBackendBaseUrl P (JStr s) c)))
                = strip_trailing_slash href
          \<and> s_backendBaseUrl (storage (snd (setBackendBaseUrl P (JStr s) c)))
                = JStr (strip_trailing_slash href))"
  by (simp add: setBackendBaseUrl_def sanitizeBaseUrl_JStr STATE_persistState STATE_set_state
      persistState_def Let_def emit_def set_state_def)

theorem setBackendBaseUrl_validates_witness:
  "setBackendBaseUrl sample_platform (JStr ''not a url, no scheme, no dots'') warm_coordinator
     = (Some invalid_backend_url, warm_coordinator)
   \<and> fst (setBackendBaseUrl sample_platform (JStr ''api.example.com'') warm_coordinator) = None
   \<and> backendBaseUrl (STATE (snd (setBackendBaseUrl sample_platform (JStr ''api.example.com'')
         warm_coordinator))) = ''https://api.example.com''
   \<and> s_backendBaseUrl (storage (snd (setBackendBaseUrl sample_platform (JStr ''api.example.com'')
         warm_coordinator))) = JStr ''https://api.example.com''"
proof -
  have t1: "trim ''not a url, no scheme, no dots'' = ''not a url, no scheme, no dots''"
    and t2: "trim ''api.example.com'' = ''api.example.com''"
    by (simp_all add: trim_def is_space_def)
  have bad: "URL_href sample_platform (trim ''not a url, no scheme, no dots'') = None
      \<and> URL_href sample_platform (''https://'' @ trim ''not a url, no scheme, no dots'') = None"
    unfolding t1 by (simp add: sample_platform_def URL_href_sample_def origin_href_def
        strip_trailing_slash_def)
  have host: "trim ''api.example.com'' \<noteq> []
      \<and> URL_href sample_platform (trim ''api.example.com'') = None
      \<and> URL_href sample_platform (''https://'' @ trim ''api.example.com'')
          = Some ''https://api.example.com/''
      \<and> strip_trailing_slash ''https://api.example.com/'' \<noteq> []"
    unfolding t2 by (simp add: sample_platform_def URL_href_sample_def origin_href_def
        strip_trailing_slash_def)
  have strip: "strip_trailing_slash ''https://api.example.com/'' = ''https://api.example.com''"
    by (simp add: strip_trailing_slash_def)
  from setBackendBaseUrl_validates
         [of sample_platform "''not a url, no scheme, no dots''" warm_coordinator] bad
  have first: "setBackendBaseUrl sample_platform (JStr ''not a url, no scheme, no dots'')
      warm_coordinator = (Some invalid_backend_url, warm_coordinator)"
    by blast
  from setBackendBaseUrl_validates
         [of sample_platform "''api.example.com''" warm_coordinator "''https://api.example.com/''"]
       host
  have "fst (setBackendBaseUrl sample_platform (JStr ''api.example.com'') warm_coordinator) = None
   \<and> backendBaseUrl (STATE (snd (setBackendBaseUrl sample_platform (JStr ''api.example.com'')
         warm_coordinator))) = strip_trailing_slash ''https://api.example.com/''
   \<and> s_backendBaseUrl (storage (snd (setBackendBaseUrl sample_platform (JStr ''api.example.com'')
         warm_coordinator))) = JStr (strip_trailing_slash ''https://api.example.com/'')"
    by blast
  with first show ?thesis
    unfolding strip by blast
qed

section \<open>Properties of the content script\<close>

declare sendWithRetry.simps [simp del]

lemma sendWithRetry_throws:
  "out attempt = SendThrows \<Longrightarrow>
     sendWithRetry out m attempt d =
       (if attempt < maxRetries
        then sendWithRetry out m (attempt + 1)
               (d\<lparr>sent := sent d @ [(attempt, m)], timers := timers d @ [retry_delay attempt]\<rparr>)
        else d\<lparr>sent := sent d @ [(attempt, m)]\<rparr>)"
  by (subst sendWithRetry.simps) (simp add: Let_def)

lemma sendWithRetry_lastError:
  "out attempt = LastError \<Longrightarrow>
     sendWithRetry out m attempt d =
       (if attempt < maxRetries
        then sendWithRetry out m (attempt + 1)
               (d\<lparr>sent := sent d @ [(attempt, m)], timers := timers d @ [retry_delay attempt]\<rparr>)
        else queue_locally m (d\<lparr>sent := sent d @ [(attempt, m)]\<rparr>))"
  by (subst sendWithRetry.simps) (simp add: Let_def)

lemma sendWithRetry_callback:
  "out attempt = Callback response \<Longrightarrow>
     sendWithRetry out m attempt d = d\<lparr>sent := sent d @ [(attempt, m)]\<rparr>"
  by (subst sendWithRetry.simps) (simp add: Let_def)

lemma sendWithRetry_sent:
  "\<exists>rest. sent (sendWithRetry out m attempt d) = sent d @ (attempt, m) # rest"
proof (induction out m attempt d rule: sendWithRetry.induct)
  case (1 out m attempt d)
  let ?d2 = "d\<lparr>sent := sent d @ [(attempt, m)], timers := timers d @ [retry_delay attempt]\<rparr>"
  show ?case
  proof (cases "out attempt")
    case (Callback response)
    then show ?thesis
      by (simp add: sendWithRetry_callback)
  next
    case LastError
    show ?thesis
    proof (cases "attempt < maxRetries")
      case True
      from "1.IH"(2) [OF refl LastError True]
      obtain rest where "sent (sendWithRetry out m (attempt + 1) ?d2) = sent ?d2 @ (attempt + 1, m) # rest"
        by auto
      with LastError True show ?thesis
        by (simp add: sendWithRetry_lastError)
    next
      case False
      with LastError show ?thesis
        by (simp add: sendWithRetry_lastError queue_locally_def)
    qed
  next
    case SendThrows
    show ?thesis
    proof (cases "attempt < maxRetries")
      case True
      from "1.IH"(1) [OF refl SendThrows True]
      obtain rest where "sent (sendWithRetry out m (attempt + 1) ?d2) = sent ?d2 @ (attempt + 1, m) # rest"
        by auto
      with SendThrows True show ?thesis
        by (simp add: sendWithRetry_throws)
    next
      case False
      with SendThrows show ?thesis
        by (simp add: sendWithRetry_throws)
    qed
  qed
qed

lemma sendWithRetry_all_throw:
  "sendWithRetry channel_throws m 1 d =
     d\<lparr>sent := sent d @ [(1, m), (2, m), (3, m)], timers := timers d @ [300, 600]\<rparr>"
  by (simp add: sendWithRetry_throws channel_throws_def maxRetries_def retry_delay_def
      retryDelayBase_def)

lemma sendWithRetry_all_lastError:
  "sendWithRetry channel_down m 1 d =
     queue_locally m
       (d\<lparr>sent := sent d @ [(1, m), (2, m), (3, m)], timers := timers d @ [300, 600]\<rparr>)"
  by (simp add: sendWithRetry_lastError channel_down_def maxRetries_def retry_delay_def
      retryDelayBase_def queue_locally_def)

text \<open>
  C3. When \<^verbatim>\<open>chrome.runtime.sendMessage\<close> throws on each of the three attempts, the
  event is sent three times with delays of 300 and 600 ms and is then neither queued nor
  acknowledged: \<open>pendingActivities\<close> is what it was. When instead each attempt reports
  \<^verbatim>\<open>lastError\<close>, the same three attempts end with the event appended once to the queue.
\<close>

theorem thrown_sends_are_dropped_after_retries:
  "dispatchActivity channel_throws (Some p) d =
     (let m = \<lparr> msg_platform = Some (platform_name (currentPlatform d)),
                 msg_mode = content_mode d, msg_payload = Some p \<rparr>
      in d\<lparr>sent := sent d @ [(1, m), (2, m), (3, m)], timers := timers d @ [300, 600]\<rparr>)
   \<and> pendingActivities (dispatchActivity channel_throws (Some p) d) = pendingActivities d
   \<and> pendingActivities (dispatchActivity channel_down (Some p) d)
       = pendingActivities d @ [Entry (Some p) (Some (platform_name (currentPlatform d)))]
   \<and> timers (dispatchActivity channel_down (Some p) d) = timers d @ [300, 600]"
  by (simp add: dispatchActivity_def sendWithRetry_all_throw sendWithRetry_all_lastError
      queue_locally_def Let_def del: One_nat_def)

theorem thrown_sends_are_dropped_after_retries_witness:
  "pendingActivities (dispatchActivity channel_throws (Some sample_activity)
     (dispatcher_initial GMAIL)) = []
   \<and> map fst (sent (dispatchActivity channel_throws (Some sample_activity)
     (dispatcher_initial GMAIL))) = [1, 2, 3]
   \<and> timers (dispatchActivity channel_throws (Some sample_activity)
     (dispatcher_initial GMAIL)) = [300, 600]
   \<and> pendingActivities (dispatchActivity channel_down (Some sample_activity)
     (dispatcher_initial GMAIL)) = [Entry (Some sample_activity) (Some ''gmail'')]"
  using thrown_sends_are_dropped_after_retries [of sample_activity "dispatcher_initial GMAIL"]
  by (simp add: dispatcher_initial_def Let_def del: One_nat_def)

subsection \<open>Attachment size\<close>

lemma foldl_add_size_hint_none:
  "\<forall>t \<in> set texts. \<not> has_unit_word t \<Longrightarrow> foldl add_size_hint acc texts = acc"
  by (induction texts arbitrary: acc) (simp_all add: add_size_hint_def)

text \<open>The estimate is the sum, over the candidate texts, of the positive size hints.\<close>

lemma foldl_add_size_hint_sum:
  "foldl add_size_hint acc texts =
     acc + sum_list (map (\<lambda>t. if t \<noteq> [] \<and> has_unit_word t \<and> parseSizeToMb t > 0
                                then parseSizeToMb t else 0) texts)"
  by (induction texts arbitrary: acc) (simp_all add: add_size_hint_def Let_def)

lemma attachment_sizes_are_summed:
  "attachmentBytes (extractEmailData pl acct (Some region)) =
     math_round (sum_list (map (\<lambda>t. if t \<noteq> [] \<and> has_unit_word t \<and> parseSizeToMb t > 0
                                   then parseSizeToMb t else 0) (candidate_texts region))
                 * 1000000)"
  by (simp add: extractEmailData_def computeAttachmentTotalMb_def foldl_add_size_hint_sum Let_def)

lemma attachment_sizes_example:
  "attachmentBytes (extractGmailEmailData None (Some region_with_sizes)) = 2000000"
  by code_simp

lemma math_round_zero: "math_round 0 = 0"
  by (simp add: math_round_def floor_eq_iff)

text \<open>
  C8. When no candidate text of the compose region carries a size unit, the extracted
  \<open>attachmentBytes\<close> is zero for Gmail and for Outlook, however many attachments the
  region shows; the event has no per-attachment fallback. The tooltip estimate for the
  same region does fall back to one megabyte per attachment.
\<close>

theorem attachmentBytes_has_no_fallback:
  assumes "\<forall>t \<in> set (candidate_texts region). \<not> has_unit_word t"
  shows "attachmentBytes (extractGmailEmailData acct (Some region)) = 0
       \<and> attachmentBytes (extractOutlookEmailData acct (Some region)) = 0
       \<and> attachmentCount (extractGmailEmailData acct (Some region))
           = (case attachment_items region of None \<Rightarrow> 0 | Some n \<Rightarrow> n)
       \<and> attachmentCount (extractOutlookEmailData acct (Some region))
           = (case attachment_items region of None \<Rightarrow> 0 | Some n \<Rightarrow> n)"
  using assms
  by (simp add: extractGmailEmailData_def extractOutlookEmailData_def extractEmailData_def
      computeAttachmentTotalMb_def foldl_add_size_hint_none math_round_zero Let_def)

theorem attachmentBytes_has_no_fallback_witness:
  "attachmentCount (extractGmailEmailData (Some ''me@example.com'') (Some region_without_sizes)) = 1
   \<and> attachmentBytes (extractGmailEmailData (Some ''me@example.com'') (Some region_without_sizes)) = 0
   \<and> attachmentBytes (extractOutlookEmailData (Some ''me@example.com'') (Some region_without_sizes)) = 0
   \<and> tooltip_total_mb (Some ''me@example.com'') region_without_sizes = 1"
proof -
  have texts: "candidate_texts region_without_sizes = [''Report'', ''report.pdf'', ''Send'']"
    and tips: "tooltip_texts region_without_sizes = [''Report'', ''report.pdf'', ''Send'']"
    and items: "attachment_items region_without_sizes = Some 1"
    by (simp_all add: region_without_sizes_def)
  have none: "\<forall>t \<in> set [''Report'', ''report.pdf'', ''Send'']. \<not> has_unit_word t"
    by (simp add: has_unit_word_def unit_at_def is_word_char_def)
  then have no_size: "\<forall>t \<in> set (candidate_texts region_without_sizes). \<not> has_unit_word t"
    by (simp only: texts)
  have "foldl add_size_hint 0 (tooltip_texts region_without_sizes) = 0"
    unfolding tips by (rule foldl_add_size_hint_none [OF none])
  then have tip: "tooltip_total_mb (Some ''me@example.com'') region_without_sizes = 1"
    using attachmentBytes_has_no_fallback [OF no_size, of "Some ''me@example.com''"]
    by (simp add: tooltip_total_mb_def Let_def items)
  from attachmentBytes_has_no_fallback [OF no_size, of "Some ''me@example.com''"] tip
  show ?thesis by (simp add: items)
qed


subsection \<open>Two layers of deduplication\<close>

text \<open>
  Sending, retrying and queueing leave \<^verbatim>\<open>_lastDispatchAt\<close> alone, so a click on the send
  button never moves it.
\<close>

lemma lastDispatchAt_sendWithRetry:
  "lastDispatchAt (sendWithRetry out m attempt d) = lastDispatchAt d"
proof (induction out m attempt d rule: sendWithRetry.induct)
  case (1 out m attempt d)
  show ?case
  proof (cases "out attempt")
    case SendThrows
    with "1.IH"(1) [OF refl SendThrows] show ?thesis
      by (simp add: sendWithRetry_throws)
  next
    case LastError
    with "1.IH"(2) [OF refl LastError] show ?thesis
      by (simp add: sendWithRetry_lastError queue_locally_def)
  next
    case (Callback response)
    then show ?thesis by (simp add: sendWithRetry_callback)
  qed
qed

lemma lastDispatchAt_sendButtonClicked:
  "lastDispatchAt (sendButtonClicked out acct composeRoot d) = lastDispatchAt d"
  by (simp add: sendButtonClicked_def dispatchActivity_def lastDispatchAt_sendWithRetry Let_def
      split: mail_platform.splits option.splits)

lemma dispatchActivity_channel_up:
  "dispatchActivity channel_up (Some p) d =
     d\<lparr>sent := sent d @ [(1, \<lparr> msg_platform = Some (platform_name (currentPlatform d)),
                                 msg_mode = content_mode d, msg_payload = Some p \<rparr>)]\<rparr>"
  by (simp add: dispatchActivity_def sendWithRetry_callback channel_up_def del: One_nat_def)

lemma activityType_extractEmailData:
  "activityType (extractEmailData pl acct composeRoot) = Some ''email''"
  by (simp add: extractEmailData_def Let_def)

lemma sendButtonClicked_region:
  "sendButtonClicked out acct (Some region) d =
     dispatchActivity out (Some (extractEmailData (currentPlatform d) acct (Some region))) d"
  by (cases "currentPlatform d")
     (simp_all add: sendButtonClicked_def extractGmailEmailData_def extractOutlookEmailData_def
        activityType_extractEmailData Let_def)

lemma handleGlobalKeydown_region:
  assumes "is_enter ev \<and> (ctrlKey ev \<or> metaKey ev)"
  shows "handleGlobalKeydown out t acct ev (Some region) d =
     (if t - lastDispatchAt d < 1000 then d
      else dispatchActivity out (Some (extractEmailData (currentPlatform d) acct (Some region)))
             (d\<lparr>lastDispatchAt := t\<rparr>))"
  using assms by (simp add: handleGlobalKeydown_def activityType_extractEmailData Let_def)

text \<open>
  The second layer. Once the Coordinator has accepted an event, the next message, if it
  has the same fingerprint and arrives less than 2000 ms later, leaves the Coordinator,
  its storage and its effects unchanged.
\<close>

lemma consecutive_duplicate_is_absorbed:
  assumes "msg_payload m1 = Some p" and "msg_payload m2 = Some q"
    and "fingerprint q = fingerprint p"
    and "\<not> is_duplicate c (clock e1) (fingerprint p)"
    and "clock e2 - clock e1 < 2000"
  shows "onActivityMessage P e2 m2 (onActivityMessage P e1 m1 c) = onActivityMessage P e1 m1 c"
proof -
  let ?c1 = "handleActivityEvent P e1 (Some p) (msg_platform m1) (msg_mode m1) c"
  have "lastActivityFingerprint ?c1 = Some (fingerprint p)" and "lastActivityAt ?c1 = clock e1"
    by (rule handleActivityEvent_records_fingerprint [OF assms(4)])+
  with assms(3,5) have "is_duplicate ?c1 (clock e2) (fingerprint q)"
    using fingerprint_nonempty [of p] by (simp add: is_duplicate_def)
  then have "handleActivityEvent P e2 (Some q) (msg_platform m2) (msg_mode m2) ?c1 = ?c1"
    by (simp add: handleActivityEvent_def)
  with assms(1,2) show ?thesis
    by (simp add: onActivityMessage_def)
qed

text \<open>
  C2. \<^verbatim>\<open>_lastDispatchAt\<close> is declared as the guard against a double dispatch on click
  and keyboard, but only the keyboard handler writes it, and \<^verbatim>\<open>dispatchActivity\<close> itself
  compares nothing. A click on the send button followed by the send shortcut on the same
  compose region, however soon after, dispatches the same event twice: the click leaves
  \<^verbatim>\<open>_lastDispatchAt\<close> as it was, and two messages with the same payload go to the
  Coordinator. The guard does hold between two shortcuts: the second one, less than
  1000 ms after the first, is dropped.
\<close>

theorem click_then_shortcut_dispatches_twice:
  assumes "is_enter ev \<and> (ctrlKey ev \<or> metaKey ev)" and "1000 \<le> t - lastDispatchAt d"
  shows "lastDispatchAt (sendButtonClicked channel_up acct (Some region) d) = lastDispatchAt d
       \<and> sent (handleGlobalKeydown channel_up t acct ev (Some region)
                 (sendButtonClicked channel_up acct (Some region) d))
           = (let m = \<lparr> msg_platform = Some (platform_name (currentPlatform d)),
                          msg_mode = content_mode d,
                          msg_payload = Some (extractEmailData (currentPlatform d) acct
                                                (Some region)) \<rparr>
              in sent d @ [(1, m), (1, m)])
       \<and> (t2 - t < 1000 \<longrightarrow>
             handleGlobalKeydown channel_up t2 acct ev (Some region)
               (handleGlobalKeydown channel_up t acct ev (Some region) d)
             = handleGlobalKeydown channel_up t acct ev (Some region) d)"
  using assms
  by (simp add: sendButtonClicked_region handleGlobalKeydown_region dispatchActivity_channel_up
      Let_def del: One_nat_def)

text \<open>
  A Gmail compose window: the click, the shortcut 200 ms later (two sends, the messages
  equal), and for comparison two shortcuts 200 ms apart (one send).
\<close>

theorem click_then_shortcut_dispatches_twice_witness:
  "lastDispatchAt (sendButtonClicked channel_up None (Some region_without_sizes)
       (dispatcher_initial GMAIL)) = 0
   \<and> map fst (sent (handleGlobalKeydown channel_up 1700000000200 None ctrl_enter
        (Some region_without_sizes)
        (sendButtonClicked channel_up None (Some region_without_sizes)
           (dispatcher_initial GMAIL)))) = [1, 1]
   \<and> \<not> distinct (map snd (sent (handleGlobalKeydown channel_up 1700000000200 None ctrl_enter
        (Some region_without_sizes)
        (sendButtonClicked channel_up None (Some region_without_sizes)
           (dispatcher_initial GMAIL)))))
   \<and> map fst (sent (handleGlobalKeydown channel_up 1700000000400 None ctrl_enter
        (Some region_without_sizes)
        (handleGlobalKeydown channel_up 1700000000200 None ctrl_enter
           (Some region_without_sizes) (dispatcher_initial GMAIL)))) = [1]"
proof -
  let ?d = "dispatcher_initial GMAIL"
  have ev: "is_enter ctrl_enter \<and> (ctrlKey ctrl_enter \<or> metaKey ctrl_enter)"
    by (simp add: ctrl_enter_def)
  have far: "(1000::int) \<le> 1700000000200 - lastDispatchAt ?d"
    and d0: "lastDispatchAt ?d = 0" "sent ?d = []"
    by (simp_all add: dispatcher_initial_def)
  have once: "map fst (sent (handleGlobalKeydown channel_up 1700000000200 None ctrl_enter
        (Some region_without_sizes) ?d)) = [1]"
    by (simp add: handleGlobalKeydown_region [OF ev] dispatchActivity_channel_up d0
        del: One_nat_def)
  from click_then_shortcut_dispatches_twice
         [OF ev far, of None region_without_sizes 1700000000400] once
  show ?thesis
    by (simp add: d0 Let_def del: One_nat_def)
qed

end
